(* ===== verification/Prelude.thy ===== *)
theory Prelude
  imports Main "HOL-Library.Word"
begin

text \<open>
  Shared vocabulary of the pemja development: the Java primitive types of
  \<^verbatim>\<open>jni.h\<close> as machine words, the error-and-state monad in which every
  native routine is written (\<open>'e + 's\<close>, \<open>Inl\<close> the fault), the sequential
  composition of a routine over a list (how a C macro table such as
  \<^verbatim>\<open>CLASS_TABLE(F)\<close> expands), and the generic lemmas on options, maps and
  lists the component theories share.
\<close>

section \<open>Java primitive types\<close>

text \<open>
  \<^verbatim>\<open>jni.h\<close> fixes the widths: \<open>jboolean\<close> is an unsigned 8-bit value,
  \<open>jbyte\<close>, \<open>jshort\<close>, \<open>jint\<close>, \<open>jlong\<close> are two's-complement 8, 16, 32, 64
  bits, \<open>jchar\<close> is an unsigned 16-bit UTF-16 unit. \<open>jfloat\<close> and \<open>jdouble\<close>
  are carried as their IEEE-754 bit patterns: every routine modelled here only
  copies them, never computes with them. \<open>jsize\<close> is a \<open>jint\<close>.
\<close>

type_synonym jboolean = "8 word"
type_synonym jbyte = "8 word"
type_synonym jshort = "16 word"
type_synonym jint = "32 word"
type_synonym jlong = "64 word"
type_synonym jchar = "16 word"
type_synonym jfloat = "32 word"
type_synonym jdouble = "64 word"
type_synonym jsize = jint

named_theorems jni_simps "equations of the JNI and CPython primitives on concrete states"
named_theorems cache_simps "characteristic equations of the class-cache routines"

section \<open>Error-and-state composition\<close>

text \<open>
  A native routine takes the state and returns either a fault (\<open>Inl\<close>) or the
  new state with its result (\<open>Inr\<close>). \<open>sbind\<close> is C's statement sequencing:
  a fault stops the routine.
\<close>

definition sbind :: "'e + 'a \<Rightarrow> ('a \<Rightarrow> 'e + 'b) \<Rightarrow> 'e + 'b" where
  "sbind m f = (case m of Inl e \<Rightarrow> Inl e | Inr a \<Rightarrow> f a)"

text \<open>
  \<open>seq_each f xs s\<close> runs \<open>f x\<close> for each \<open>x\<close> of \<open>xs\<close> in order, threading the
  state and stopping at the first fault: the expansion of an X-macro table
  \<^verbatim>\<open>TABLE(F)\<close> into the statements \<^verbatim>\<open>F(x1) F(x2) ...\<close>.
\<close>

fun seq_each :: "('a \<Rightarrow> 's \<Rightarrow> 'e + 's) \<Rightarrow> 'a list \<Rightarrow> 's \<Rightarrow> 'e + 's" where
  "seq_each f [] s = Inr s"
| "seq_each f (x # xs) s = sbind (f x s) (seq_each f xs)"

lemma sbind_Inl [simp]: "sbind (Inl e) f = Inl e"
  by (simp add: sbind_def)

lemma sbind_Inr [simp]: "sbind (Inr a) f = f a"
  by (simp add: sbind_def)

lemma sbind_eq_Inr:
  "sbind m f = Inr b \<longleftrightarrow> (\<exists>a. m = Inr a \<and> f a = Inr b)"
  by (cases m) (auto simp: sbind_def)

lemma sbind_eq_Inl:
  "sbind m f = Inl e \<longleftrightarrow> m = Inl e \<or> (\<exists>a. m = Inr a \<and> f a = Inl e)"
  by (cases m) (auto simp: sbind_def)

lemma seq_each_append:
  "seq_each f (xs @ ys) s = sbind (seq_each f xs s) (seq_each f ys)"
  by (induction xs arbitrary: s) (auto simp: sbind_def split: sum.splits)

text \<open>
  The two rules every table-wide property is proved with: an invariant kept by
  each step is kept by the whole expansion, and a step that never faults under
  the invariant makes the expansion never fault.
\<close>

lemma seq_each_invariant:
  assumes "seq_each f xs s = Inr s'" and "P s"
    and "\<And>x t t'. x \<in> set xs \<Longrightarrow> P t \<Longrightarrow> f x t = Inr t' \<Longrightarrow> P t'"
  shows "P s'"
  using assms
proof (induction xs arbitrary: s)
  case Nil
  then show ?case by simp
next
  case (Cons x xs)
  from Cons.prems(1) obtain t where t: "f x s = Inr t" and rest: "seq_each f xs t = Inr s'"
    by (auto simp: sbind_eq_Inr)
  from Cons.prems(3) [OF _ Cons.prems(2) t] have "P t" by simp
  with rest Cons.prems(3) show ?case by (intro Cons.IH) auto
qed

lemma seq_each_total:
  assumes "P s"
    and "\<And>x t. x \<in> set xs \<Longrightarrow> P t \<Longrightarrow> \<exists>t'. f x t = Inr t' \<and> P t'"
  shows "\<exists>s'. seq_each f xs s = Inr s' \<and> P s'"
  using assms
proof (induction xs arbitrary: s)
  case Nil
  then show ?case by simp
next
  case (Cons x xs)
  from Cons.prems obtain t where t: "f x s = Inr t" and "P t" by fastforce
  with Cons.prems(2) obtain s' where "seq_each f xs t = Inr s' \<and> P s'"
    using Cons.IH by fastforce
  with t show ?case by simp
qed

lemma seq_each_fixpoint:
  assumes "\<And>x. x \<in> set xs \<Longrightarrow> f x s = Inr s"
  shows "seq_each f xs s = Inr s"
  using assms by (induction xs) auto

section \<open>Options and maps\<close>

lemma fun_upd_other [simp]: "a \<noteq> b \<Longrightarrow> (f(a := v)) b = f b"
  by simp

lemma map_of_distinct_inj:
  assumes "distinct (map snd xs)" and "map_of xs a = Some n" and "map_of xs b = Some n"
  shows "a = b"
  using assms
proof (induction xs)
  case Nil
  then show ?case by simp
next
  case (Cons p xs)
  then show ?case
    by (cases p) (auto split: if_splits dest: map_of_SomeD intro: rev_image_eqI)
qed


text \<open>
  A property \<open>Q x\<close> that the step for \<open>x\<close> establishes and that every
  step keeps holds at the end for every element of the list.
\<close>

lemma seq_each_establish:
  assumes "seq_each f xs s = Inr s'" and "P s" and "x \<in> set xs"
    and step: "\<And>y t t'. y \<in> set xs \<Longrightarrow> P t \<Longrightarrow> f y t = Inr t' \<Longrightarrow> P t' \<and> Q y t'"
    and keep: "\<And>y z t t'. y \<in> set xs \<Longrightarrow> P t \<Longrightarrow> Q z t \<Longrightarrow> f y t = Inr t' \<Longrightarrow> Q z t'"
  shows "Q x s'"
  using assms(1-3) step keep
proof (induction xs arbitrary: s)
  case Nil
  from Nil.prems(3) show ?case by simp
next
  case (Cons y xs)
  from Cons.prems(1) obtain t where t: "f y s = Inr t" and rest: "seq_each f xs t = Inr s'"
    by (auto simp: sbind_eq_Inr)
  from Cons.prems(4) [OF _ Cons.prems(2) t] have Pt: "P t" and Qt: "Q y t" by auto
  show ?case
  proof (cases "x \<in> set xs")
    case True
    show ?thesis
    proof (rule Cons.IH [OF rest Pt True])
      fix z u u'
      assume "z \<in> set xs" "P u" "f z u = Inr u'"
      then show "P u' \<and> Q z u'" using Cons.prems(4) [of z u u'] by simp
    next
      fix z w u u'
      assume "z \<in> set xs" "P u" "Q w u" "f z u = Inr u'"
      then show "Q w u'" using Cons.prems(5) [of z u w u'] by simp
    qed
  next
    case False
    with Cons.prems(3) have xy: "x = y" by simp
    have "P s' \<and> Q y s'"
    proof (rule seq_each_invariant [where P = "\<lambda>u. P u \<and> Q y u", OF rest])
      show "P t \<and> Q y t" using Pt Qt by simp
    next
      fix z u u'
      assume "z \<in> set xs" "P u \<and> Q y u" "f z u = Inr u'"
      then show "P u' \<and> Q y u'"
        using Cons.prems(4) [of z u u'] Cons.prems(5) [of z u y u'] by simp
    qed
    with xy show ?thesis by simp
  qed
qed

text \<open>
  The expansion faults if it reaches an element \<open>x\<close> whose step faults in
  every state satisfying \<open>P\<close>, and the steps before it keep \<open>P\<close>.
\<close>

lemma seq_each_fault:
  assumes "x \<in> set xs" and "P s"
    and keep: "\<And>y t t'. y \<in> set xs \<Longrightarrow> y \<noteq> x \<Longrightarrow> P t \<Longrightarrow> f y t = Inr t' \<Longrightarrow> P t'"
    and fails: "\<And>t. P t \<Longrightarrow> \<exists>e. f x t = Inl e"
  shows "\<exists>e. seq_each f xs s = Inl e"
  using assms(1,2) keep
proof (induction xs arbitrary: s)
  case Nil
  from Nil.prems(1) show ?case by simp
next
  case (Cons y xs)
  show ?case
  proof (cases "y = x")
    case True
    with fails [OF Cons.prems(2)] show ?thesis by auto
  next
    case False
    with Cons.prems(1) have x: "x \<in> set xs" by simp
    show ?thesis
    proof (cases "f y s")
      case (Inl e)
      then show ?thesis by simp
    next
      case (Inr t)
      have "P t" using Cons.prems(3) [of y s t] Cons.prems(2) False Inr by simp
      have "\<exists>e. seq_each f xs t = Inl e"
      proof (rule Cons.IH [OF x \<open>P t\<close>])
        fix z u u'
        assume "z \<in> set xs" "z \<noteq> x" "P u" "f z u = Inr u'"
        then show "P u'" using Cons.prems(3) [of z u u'] by simp
      qed
      with Inr show ?thesis by simp
    qed
  qed
qed

text \<open>The only fault the expansion can return is one some step can return.\<close>

lemma seq_each_Inl_value:
  assumes "seq_each f xs s = Inl e" and "P s"
    and keep: "\<And>y t t'. y \<in> set xs \<Longrightarrow> P t \<Longrightarrow> f y t = Inr t' \<Longrightarrow> P t'"
    and only: "\<And>y t e'. y \<in> set xs \<Longrightarrow> P t \<Longrightarrow> f y t = Inl e' \<Longrightarrow> e' = e0"
  shows "e = e0"
  using assms(1,2) keep only
proof (induction xs arbitrary: s)
  case Nil
  from Nil.prems(1) show ?case by simp
next
  case (Cons y xs)
  show ?case
  proof (cases "f y s")
    case (Inl e')
    with Cons.prems(1) have "e' = e" by simp
    with Inl Cons.prems(2,4) show ?thesis using Cons.prems(4) [of y s e'] by simp
  next
    case (Inr t)
    have Pt: "P t" using Cons.prems(3) [of y s t] Cons.prems(2) Inr by simp
    from Cons.prems(1) Inr have rest: "seq_each f xs t = Inl e" by simp
    show ?thesis
    proof (rule Cons.IH [OF rest Pt])
      fix z u u'
      assume "z \<in> set xs" "P u" "f z u = Inr u'"
      then show "P u'" using Cons.prems(3) [of z u u'] by simp
    next
      fix z u e'
      assume "z \<in> set xs" "P u" "f z u = Inl e'"
      then show "e' = e0" using Cons.prems(4) [of z u e'] by simp
    qed
  qed
qed

end
