(* ===== verification/Jni.thy ===== *)
theory Jni
  imports Prelude
begin

text \<open>
  The JNI runtime as the native code sees it: a table of live references
  (local or global) to Java objects, a pending-exception slot, the class loader
  (which class names \<^verbatim>\<open>FindClass\<close> resolves) and the methods each class declares.
  The JNI functions the source calls are modelled from the JNI specification:
  each returns its result and the new environment, or a fault where the
  specification leaves the behaviour undefined (deleting a reference that is
  not live, passing \<^verbatim>\<open>NULL\<close> where an object is required, or calling a function
  that is not exception-safe while an exception is pending).
\<close>

type_synonym jref = nat

text \<open>A C value of type \<^verbatim>\<open>jobject\<close>/\<^verbatim>\<open>jclass\<close>/\<^verbatim>\<open>jstring\<close>: \<open>None\<close> is \<^verbatim>\<open>NULL\<close>.\<close>

type_synonym jobject = "jref option"

datatype ref_kind = LocalRef | GlobalRef

datatype jobj =
    ClassObj string
  | StringObj string
  | MemberObj string string  \<comment> \<open>a \<^verbatim>\<open>java.lang.reflect.Member\<close>: declaring class, name\<close>

datatype jmethodID = MethodID string string string  \<comment> \<open>class, name, signature\<close>

datatype jni_fault =
    InvalidRef string jref       \<comment> \<open>a function was given a reference that is not live\<close>
  | NullArgument string          \<comment> \<open>\<^verbatim>\<open>NULL\<close> where the function requires an object\<close>
  | PendingException string      \<comment> \<open>a non-exception-safe function called with an exception pending\<close>
  | WrongObject string jref      \<comment> \<open>the object does not have the type the function requires\<close>

record jni_env =
  refs :: "jref \<rightharpoonup> ref_kind \<times> jobj"
  next_ref :: jref
  pending :: "string option"
  loadable :: "string \<Rightarrow> bool"
  declares :: "string \<Rightarrow> string \<Rightarrow> string \<Rightarrow> bool"

text \<open>Well-formedness: every live reference is below the allocation counter.\<close>

definition env_wf :: "jni_env \<Rightarrow> bool" where
  "env_wf e \<longleftrightarrow> (\<forall>r. next_ref e \<le> r \<longrightarrow> refs e r = None)"

definition globals_of :: "jni_env \<Rightarrow> jref set" where
  "globals_of e = {r. \<exists>ob. refs e r = Some (GlobalRef, ob)}"

definition locals_of :: "jni_env \<Rightarrow> jref set" where
  "locals_of e = {r. \<exists>ob. refs e r = Some (LocalRef, ob)}"

section \<open>Reference management\<close>

definition new_ref :: "ref_kind \<Rightarrow> jobj \<Rightarrow> jni_env \<Rightarrow> jref \<times> jni_env" where
  "new_ref k ob e =
     (next_ref e, e\<lparr>refs := (refs e)(next_ref e \<mapsto> (k, ob)), next_ref := Suc (next_ref e)\<rparr>)"

definition FindClass :: "jni_env \<Rightarrow> string \<Rightarrow> jni_fault + (jobject \<times> jni_env)" where
  "FindClass e name =
     (if pending e \<noteq> None then Inl (PendingException ''FindClass'')
      else if loadable e name then
        (let (r, e') = new_ref LocalRef (ClassObj name) e in Inr (Some r, e'))
      else Inr (None, e\<lparr>pending := Some ''java/lang/NoClassDefFoundError''\<rparr>))"

definition NewGlobalRef :: "jni_env \<Rightarrow> jobject \<Rightarrow> jni_fault + (jobject \<times> jni_env)" where
  "NewGlobalRef e obj =
     (if pending e \<noteq> None then Inl (PendingException ''NewGlobalRef'')
      else case obj of
        None \<Rightarrow> Inr (None, e)
      | Some r \<Rightarrow> (case refs e r of
          None \<Rightarrow> Inl (InvalidRef ''NewGlobalRef'' r)
        | Some (_, ob) \<Rightarrow> (let (g, e') = new_ref GlobalRef ob e in Inr (Some g, e'))))"

text \<open>The two delete functions are exception-safe and accept \<^verbatim>\<open>NULL\<close>.\<close>

definition DeleteLocalRef :: "jni_env \<Rightarrow> jobject \<Rightarrow> jni_fault + jni_env" where
  "DeleteLocalRef e obj =
     (case obj of
        None \<Rightarrow> Inr e
      | Some r \<Rightarrow> (case refs e r of
          Some (LocalRef, _) \<Rightarrow> Inr (e\<lparr>refs := (refs e)(r := None)\<rparr>)
        | _ \<Rightarrow> Inl (InvalidRef ''DeleteLocalRef'' r)))"

definition DeleteGlobalRef :: "jni_env \<Rightarrow> jobject \<Rightarrow> jni_fault + jni_env" where
  "DeleteGlobalRef e obj =
     (case obj of
        None \<Rightarrow> Inr e
      | Some r \<Rightarrow> (case refs e r of
          Some (GlobalRef, _) \<Rightarrow> Inr (e\<lparr>refs := (refs e)(r := None)\<rparr>)
        | _ \<Rightarrow> Inl (InvalidRef ''DeleteGlobalRef'' r)))"

section \<open>Methods\<close>

definition GetMethodID ::
  "jni_env \<Rightarrow> jobject \<Rightarrow> string \<Rightarrow> string \<Rightarrow> jni_fault + (jmethodID option \<times> jni_env)" where
  "GetMethodID e clazz name sig =
     (if pending e \<noteq> None then Inl (PendingException ''GetMethodID'')
      else case clazz of
        None \<Rightarrow> Inl (NullArgument ''GetMethodID'')
      | Some r \<Rightarrow> (case refs e r of
          Some (_, ClassObj cn) \<Rightarrow>
            (if declares e cn name sig then Inr (Some (MethodID cn name sig), e)
             else Inr (None, e\<lparr>pending := Some ''java/lang/NoSuchMethodError''\<rparr>))
        | Some _ \<Rightarrow> Inl (WrongObject ''GetMethodID'' r)
        | None \<Rightarrow> Inl (InvalidRef ''GetMethodID'' r)))"

text \<open>
  \<^verbatim>\<open>CallObjectMethod\<close> for the instance method the bridge invokes:
  \<^verbatim>\<open>Member.getName()\<close> returns a new local reference to the member's name.
\<close>

definition CallObjectMethod ::
  "jni_env \<Rightarrow> jobject \<Rightarrow> jmethodID option \<Rightarrow> jni_fault + (jobject \<times> jni_env)" where
  "CallObjectMethod e obj mid =
     (if pending e \<noteq> None then Inl (PendingException ''CallObjectMethod'')
      else case (obj, mid) of
        (None, _) \<Rightarrow> Inl (NullArgument ''CallObjectMethod'')
      | (_, None) \<Rightarrow> Inl (NullArgument ''CallObjectMethod'')
      | (Some r, Some (MethodID cn m sig)) \<Rightarrow> (case refs e r of
          Some (_, MemberObj c n) \<Rightarrow>
            (if m = ''getName'' \<and> sig = ''()Ljava/lang/String;''
             then (let (s, e') = new_ref LocalRef (StringObj n) e in Inr (Some s, e'))
             else Inl (WrongObject ''CallObjectMethod'' r))
        | Some _ \<Rightarrow> Inl (WrongObject ''CallObjectMethod'' r)
        | None \<Rightarrow> Inl (InvalidRef ''CallObjectMethod'' r)))"

section \<open>Lemmas\<close>

lemma new_ref_fresh:
  "env_wf e \<Longrightarrow> refs e (next_ref e) = None"
  by (simp add: env_wf_def)

lemma env_wf_live:
  "env_wf e \<Longrightarrow> refs e r = Some x \<Longrightarrow> r < next_ref e"
  by (metis env_wf_def not_le option.distinct(1))

lemma env_wf_new_ref:
  "env_wf e \<Longrightarrow> new_ref k ob e = (r, e') \<Longrightarrow> env_wf e'"
  by (auto simp: env_wf_def new_ref_def)

lemma env_wf_del:
  "env_wf e \<Longrightarrow> env_wf (e\<lparr>refs := (refs e)(r := None)\<rparr>)"
  by (auto simp: env_wf_def)

lemma env_wf_pending [simp]:
  "env_wf (e\<lparr>pending := p\<rparr>) = env_wf e"
  by (simp add: env_wf_def)

lemma FindClass_loaded [jni_simps]:
  "pending e = None \<Longrightarrow> loadable e name \<Longrightarrow>
   FindClass e name = Inr (Some (next_ref e),
     e\<lparr>refs := (refs e)(next_ref e \<mapsto> (LocalRef, ClassObj name)), next_ref := Suc (next_ref e)\<rparr>)"
  by (simp add: FindClass_def new_ref_def)

lemma FindClass_missing [jni_simps]:
  "pending e = None \<Longrightarrow> \<not> loadable e name \<Longrightarrow>
   FindClass e name = Inr (None, e\<lparr>pending := Some ''java/lang/NoClassDefFoundError''\<rparr>)"
  by (simp add: FindClass_def)

lemma NewGlobalRef_live [jni_simps]:
  "pending e = None \<Longrightarrow> refs e r = Some (k, ob) \<Longrightarrow>
   NewGlobalRef e (Some r) = Inr (Some (next_ref e),
     e\<lparr>refs := (refs e)(next_ref e \<mapsto> (GlobalRef, ob)), next_ref := Suc (next_ref e)\<rparr>)"
  by (simp add: NewGlobalRef_def new_ref_def)

lemma DeleteLocalRef_live [jni_simps]:
  "refs e r = Some (LocalRef, ob) \<Longrightarrow>
   DeleteLocalRef e (Some r) = Inr (e\<lparr>refs := (refs e)(r := None)\<rparr>)"
  by (simp add: DeleteLocalRef_def)

lemma DeleteGlobalRef_live [jni_simps]:
  "refs e r = Some (GlobalRef, ob) \<Longrightarrow>
   DeleteGlobalRef e (Some r) = Inr (e\<lparr>refs := (refs e)(r := None)\<rparr>)"
  by (simp add: DeleteGlobalRef_def)

lemma Delete_NULL [jni_simps]:
  "DeleteLocalRef e None = Inr e" "DeleteGlobalRef e None = Inr e"
  by (simp_all add: DeleteLocalRef_def DeleteGlobalRef_def)

end
