(* ===== verification/ClassCache.thy ===== *)
theory ClassCache
  imports Jni
begin

text \<open>
  The class cache of \<^verbatim>\<open>src/main/c/pemja/core/include/pyutils.h\<close>: the X-macro
  \<^verbatim>\<open>CLASS_TABLE(F)\<close> lists the 39 Java classes the bridge dispatches on, each a
  C global \<^verbatim>\<open>extern jclass var\<close> (\<^verbatim>\<open>DEFINE_CLASS_GLOBAL\<close>).
  \<^verbatim>\<open>Jcp_CacheClasses\<close> expands \<^verbatim>\<open>CLASS_TABLE(CACHE_CLASS)\<close>: every entry
  still \<^verbatim>\<open>NULL\<close> is resolved with \<^verbatim>\<open>FindClass\<close>, promoted to a global
  reference, and the local reference is deleted. \<^verbatim>\<open>Jcp_UnRefCacheClasses\<close>
  expands \<^verbatim>\<open>CLASS_TABLE(UNREF_CACHE_CLASS)\<close>: every non-\<^verbatim>\<open>NULL\<close> entry is
  released and reset. This theory holds the table, the state of the globals, the
  two macros and the two routines, the cache invariant and its preservation,
  and the frame lemmas the properties in the root theory are proved from.
\<close>

section \<open>The class table\<close>

text \<open>The C global variables of the table, in the order of \<^verbatim>\<open>CLASS_TABLE\<close>.\<close>

datatype class_id =
    JBOOLEAN_OBJ_TYPE | JNUMBER_TYPE | JBYTE_OBJ_TYPE | JSHORT_OBJ_TYPE
  | JINT_OBJ_TYPE | JLONG_OBJ_TYPE | JFLOAT_OBJ_TYPE | JDOUBLE_OBJ_TYPE
  | JCHAR_OBJ_TYPE | JSTRING_TYPE | JBIGDECIMAL_TYPE | JBOOLEAN_ARRAY_TYPE
  | JBYTE_ARRAY_TYPE | JCHAR_ARRAY_TYPE | JSHORT_ARRAY_TYPE | JINT_ARRAY_TYPE
  | JLONG_ARRAY_TYPE | JFLOAT_ARRAY_TYPE | JDOUBLE_ARRAY_TYPE | JSTRING_ARRAY_TYPE
  | JOBJECT_ARRAY_TYPE | JSQLDATE_TYPE | JSQLTIME_TYPE | JSQLTIMESTAMP_TYPE
  | JLOCALDATE_TYPE | JLOCALTIME_TYPE | JLOCALDATETIME_TYPE | JITERABLE_TYPE
  | JITERATOR_TYPE | JCOLLECTION_TYPE | JLIST_TYPE | JMAP_TYPE
  | JHASHMAP_TYPE | JMAP_ENTRY_TYPE | JILLEGAL_STATE_EXEC_TYPE | JPYTHONEXCE_TYPE
  | JTHROWABLE_TYPE | JSTACK_TRACE_ELEMENT_TYPE | JOBJECT_TYPE

definition CLASS_TABLE :: "(class_id \<times> string) list" where
  "CLASS_TABLE = [
    (JBOOLEAN_OBJ_TYPE, ''java/lang/Boolean''),
    (JNUMBER_TYPE, ''java/lang/Number''),
    (JBYTE_OBJ_TYPE, ''java/lang/Byte''),
    (JSHORT_OBJ_TYPE, ''java/lang/Short''),
    (JINT_OBJ_TYPE, ''java/lang/Integer''),
    (JLONG_OBJ_TYPE, ''java/lang/Long''),
    (JFLOAT_OBJ_TYPE, ''java/lang/Float''),
    (JDOUBLE_OBJ_TYPE, ''java/lang/Double''),
    (JCHAR_OBJ_TYPE, ''java/lang/Character''),
    (JSTRING_TYPE, ''java/lang/String''),
    (JBIGDECIMAL_TYPE, ''java/math/BigDecimal''),
    (JBOOLEAN_ARRAY_TYPE, ''[Z''),
    (JBYTE_ARRAY_TYPE, ''[B''),
    (JCHAR_ARRAY_TYPE, ''[C''),
    (JSHORT_ARRAY_TYPE, ''[S''),
    (JINT_ARRAY_TYPE, ''[I''),
    (JLONG_ARRAY_TYPE, ''[J''),
    (JFLOAT_ARRAY_TYPE, ''[F''),
    (JDOUBLE_ARRAY_TYPE, ''[D''),
    (JSTRING_ARRAY_TYPE, ''[Ljava/lang/String;''),
    (JOBJECT_ARRAY_TYPE, ''[Ljava/lang/Object;''),
    (JSQLDATE_TYPE, ''java/sql/Date''),
    (JSQLTIME_TYPE, ''java/sql/Time''),
    (JSQLTIMESTAMP_TYPE, ''java/sql/Timestamp''),
    (JLOCALDATE_TYPE, ''java/time/LocalDate''),
    (JLOCALTIME_TYPE, ''java/time/LocalTime''),
    (JLOCALDATETIME_TYPE, ''java/time/LocalDateTime''),
    (JITERABLE_TYPE, ''java/lang/Iterable''),
    (JITERATOR_TYPE, ''java/util/Iterator''),
    (JCOLLECTION_TYPE, ''java/util/Collection''),
    (JLIST_TYPE, ''java/util/List''),
    (JMAP_TYPE, ''java/util/Map''),
    (JHASHMAP_TYPE, ''java/util/HashMap''),
    (JMAP_ENTRY_TYPE, ''java/util/Map$Entry''),
    (JILLEGAL_STATE_EXEC_TYPE, ''java/lang/IllegalStateException''),
    (JPYTHONEXCE_TYPE, ''pemja/core/PythonException''),
    (JTHROWABLE_TYPE, ''java/lang/Throwable''),
    (JSTACK_TRACE_ELEMENT_TYPE, ''java/lang/StackTraceElement''),
    (JOBJECT_TYPE, ''java/lang/Object'')]"

definition class_name :: "class_id \<Rightarrow> string" where
  "class_name c = (case map_of CLASS_TABLE c of Some n \<Rightarrow> n | None \<Rightarrow> [])"

section \<open>State: the class globals beside the JNI environment\<close>

text \<open>
  \<open>classes s var\<close> is the value of the C global \<open>var\<close> (\<open>None\<close> is
  \<^verbatim>\<open>NULL\<close>, its initial value as a static variable).
\<close>

record pemja_state =
  jenv :: jni_env
  classes :: "class_id \<Rightarrow> jobject"

text \<open>
  \<^verbatim>\<open>CACHE_CLASS(var, name)\<close>: the local \<open>clazz\<close> of \<^verbatim>\<open>Jcp_CacheClasses\<close>
  receives \<^verbatim>\<open>FindClass\<close>'s result, \<open>var\<close> receives \<^verbatim>\<open>NewGlobalRef\<close>'s, and
  the local reference is deleted. No result is checked.
\<close>

definition CACHE_CLASS :: "class_id \<Rightarrow> string \<Rightarrow> pemja_state \<Rightarrow> jni_fault + pemja_state" where
  "CACHE_CLASS var name s =
     (if classes s var = None then
        sbind (FindClass (jenv s) name) (\<lambda>(clazz, e1).
        sbind (NewGlobalRef e1 clazz) (\<lambda>(g, e2).
        let s2 = s\<lparr>jenv := e2, classes := (classes s)(var := g)\<rparr> in
        sbind (DeleteLocalRef (jenv s2) clazz) (\<lambda>e3.
        Inr (s2\<lparr>jenv := e3\<rparr>))))
      else Inr s)"

text \<open>\<^verbatim>\<open>UNREF_CACHE_CLASS(var, name)\<close>: release a non-\<^verbatim>\<open>NULL\<close> entry and reset it.\<close>

definition UNREF_CACHE_CLASS :: "class_id \<Rightarrow> string \<Rightarrow> pemja_state \<Rightarrow> jni_fault + pemja_state" where
  "UNREF_CACHE_CLASS var name s =
     (if classes s var \<noteq> None then
        sbind (DeleteGlobalRef (jenv s) (classes s var)) (\<lambda>e.
        Inr (s\<lparr>jenv := e, classes := (classes s)(var := None)\<rparr>))
      else Inr s)"

definition Jcp_CacheClasses :: "pemja_state \<Rightarrow> jni_fault + pemja_state" where
  "Jcp_CacheClasses = seq_each (\<lambda>(var, name). CACHE_CLASS var name) CLASS_TABLE"

definition Jcp_UnRefCacheClasses :: "pemja_state \<Rightarrow> jni_fault + pemja_state" where
  "Jcp_UnRefCacheClasses = seq_each (\<lambda>(var, name). UNREF_CACHE_CLASS var name) CLASS_TABLE"

text \<open>The cache invariant: every non-\<^verbatim>\<open>NULL\<close> entry is a live global reference to its class.\<close>

definition cache_inv :: "pemja_state \<Rightarrow> bool" where
  "cache_inv s \<longleftrightarrow> env_wf (jenv s) \<and>
     (\<forall>c r. classes s c = Some r \<longrightarrow> refs (jenv s) r = Some (GlobalRef, ClassObj (class_name c)))"

text \<open>
  Frame of one population step: entries already set keep their value, live
  references keep their target, and a reference that becomes live is the
  global reference of an entry that was \<^verbatim>\<open>NULL\<close>.
\<close>

definition cache_grows :: "pemja_state \<Rightarrow> pemja_state \<Rightarrow> bool" where
  "cache_grows s t \<longleftrightarrow>
     (\<forall>c. classes s c \<noteq> None \<longrightarrow> classes t c = classes s c) \<and>
     (\<forall>r. refs (jenv s) r \<noteq> None \<longrightarrow> refs (jenv t) r = refs (jenv s) r) \<and>
     (\<forall>r. refs (jenv s) r = None \<longrightarrow> refs (jenv t) r \<noteq> None \<longrightarrow>
          (\<exists>c. classes s c = None \<and> classes t c = Some r))"

text \<open>
  The state a process starts from: the globals are \<^verbatim>\<open>NULL\<close> (static
  storage), the JVM holds no reference yet, nothing is pending, and every class
  of the table is on the class path.
\<close>

definition boot_env :: jni_env where
  "boot_env = \<lparr>refs = Map.empty, next_ref = 0, pending = None,
     loadable = (\<lambda>n. n \<in> snd ` set CLASS_TABLE), declares = (\<lambda>_ _ _. False)\<rparr>"

definition boot_state :: pemja_state where
  "boot_state = \<lparr>jenv = boot_env, classes = (\<lambda>_. None)\<rparr>"

section \<open>The table is consistent\<close>

lemma CLASS_TABLE_distinct_vars: "distinct (map fst CLASS_TABLE)"
  by (simp add: CLASS_TABLE_def)

lemma CLASS_TABLE_distinct_names: "distinct (map snd CLASS_TABLE)"
  by (simp add: CLASS_TABLE_def)

lemma CLASS_TABLE_complete: "map_of CLASS_TABLE c = Some (class_name c)"
  by (cases c) (simp_all add: class_name_def CLASS_TABLE_def)

lemma class_name_inj: "class_name c = class_name d \<Longrightarrow> c = d"
  using map_of_distinct_inj [OF CLASS_TABLE_distinct_names CLASS_TABLE_complete]
  by (metis CLASS_TABLE_complete)

lemma in_CLASS_TABLE: "(var, name) \<in> set CLASS_TABLE \<Longrightarrow> name = class_name var"
  using CLASS_TABLE_complete CLASS_TABLE_distinct_vars
  by (metis map_of_is_SomeI option.inject)

section \<open>The macros, branch by branch\<close>

lemma cache_inv_wf: "cache_inv s \<Longrightarrow> env_wf (jenv s)"
  by (simp add: cache_inv_def)

lemma CACHE_CLASS_cached [cache_simps]:
  "classes s var \<noteq> None \<Longrightarrow> CACHE_CLASS var name s = Inr s"
  unfolding CACHE_CLASS_def by auto

lemma CACHE_CLASS_populate [cache_simps]:
  assumes "classes s var = None" and "pending (jenv s) = None"
    and "loadable (jenv s) name" and "env_wf (jenv s)"
  shows "CACHE_CLASS var name s =
    Inr (s\<lparr>jenv := (jenv s)\<lparr>refs := (refs (jenv s))(Suc (next_ref (jenv s)) \<mapsto> (GlobalRef, ClassObj name)),
                              next_ref := Suc (Suc (next_ref (jenv s)))\<rparr>,
           classes := (classes s)(var := Some (Suc (next_ref (jenv s))))\<rparr>)"
proof -
  have fresh: "refs (jenv s) (next_ref (jenv s)) = None"
    using assms(4) by (rule new_ref_fresh)
  have "(refs (jenv s))(next_ref (jenv s) \<mapsto> (LocalRef, ClassObj name),
          Suc (next_ref (jenv s)) \<mapsto> (GlobalRef, ClassObj name), next_ref (jenv s) := None)
        = (refs (jenv s))(Suc (next_ref (jenv s)) \<mapsto> (GlobalRef, ClassObj name))"
    using fresh by (auto simp: fun_eq_iff)
  with assms show ?thesis
    by (simp add: CACHE_CLASS_def jni_simps)
qed

lemma CACHE_CLASS_missing [cache_simps]:
  "classes s var = None \<Longrightarrow> pending (jenv s) = None \<Longrightarrow> \<not> loadable (jenv s) name \<Longrightarrow>
   CACHE_CLASS var name s = Inl (PendingException ''NewGlobalRef'')"
  by (simp add: CACHE_CLASS_def jni_simps NewGlobalRef_def)

lemma CACHE_CLASS_pending [cache_simps]:
  "classes s var = None \<Longrightarrow> pending (jenv s) \<noteq> None \<Longrightarrow>
   CACHE_CLASS var name s = Inl (PendingException ''FindClass'')"
  by (simp add: CACHE_CLASS_def FindClass_def)

lemma UNREF_CACHE_CLASS_null [cache_simps]:
  "classes s var = None \<Longrightarrow> UNREF_CACHE_CLASS var name s = Inr s"
  by (simp add: UNREF_CACHE_CLASS_def)

lemma UNREF_CACHE_CLASS_live [cache_simps]:
  "classes s var = Some r \<Longrightarrow> refs (jenv s) r = Some (GlobalRef, ob) \<Longrightarrow>
   UNREF_CACHE_CLASS var name s =
     Inr (s\<lparr>jenv := (jenv s)\<lparr>refs := (refs (jenv s))(r := None)\<rparr>, classes := (classes s)(var := None)\<rparr>)"
  by (simp add: UNREF_CACHE_CLASS_def jni_simps)

text \<open>A successful \<^verbatim>\<open>CACHE_CLASS\<close> went through one of two branches.\<close>

lemma CACHE_CLASS_Inr_cases:
  assumes "CACHE_CLASS var name s = Inr s'" and "env_wf (jenv s)"
  obtains "classes s var \<noteq> None" and "s' = s"
  | "classes s var = None" and "pending (jenv s) = None" and "loadable (jenv s) name"
    and "s' = s\<lparr>jenv := (jenv s)\<lparr>refs := (refs (jenv s))(Suc (next_ref (jenv s)) \<mapsto> (GlobalRef, ClassObj name)),
                              next_ref := Suc (Suc (next_ref (jenv s)))\<rparr>,
           classes := (classes s)(var := Some (Suc (next_ref (jenv s))))\<rparr>"
  using assms
  by (cases "classes s var = None"; cases "pending (jenv s) = None"; cases "loadable (jenv s) name")
     (auto simp: cache_simps)

section \<open>The invariant is kept by each macro\<close>

lemma cache_inv_CACHE_CLASS:
  assumes tab: "(var, name) \<in> set CLASS_TABLE" and inv: "cache_inv s"
    and run: "CACHE_CLASS var name s = Inr s'"
  shows "cache_inv s'"
proof -
  from inv have wf: "env_wf (jenv s)" by (rule cache_inv_wf)
  from run wf show ?thesis
  proof (cases rule: CACHE_CLASS_Inr_cases)
    case 1
    with inv show ?thesis by simp
  next
    case 2
    have old: "r < next_ref (jenv s)" if "classes s c = Some r" for c r
      using inv that by (auto simp: cache_inv_def intro: env_wf_live)
    from tab have "name = class_name var" by (rule in_CLASS_TABLE)
    with 2 inv old show ?thesis
      by (auto simp: cache_inv_def env_wf_def dest: old)
  qed
qed

lemma CACHE_CLASS_frame:
  assumes "CACHE_CLASS var name s = Inr s'" and "env_wf (jenv s)"
  shows "classes s' var \<noteq> None" and "\<And>c. c \<noteq> var \<Longrightarrow> classes s' c = classes s c"
    and "pending (jenv s') = pending (jenv s)" and "loadable (jenv s') = loadable (jenv s)"
    and "declares (jenv s') = declares (jenv s)"
  using assms by (cases rule: CACHE_CLASS_Inr_cases; simp)+

lemma CACHE_CLASS_total:
  assumes tab: "(var, name) \<in> set CLASS_TABLE" and inv: "cache_inv s"
    and "pending (jenv s) = None" and "loadable (jenv s) name"
  shows "\<exists>s'. CACHE_CLASS var name s = Inr s' \<and> cache_inv s'"
proof (cases "classes s var = None")
  case True
  with assms obtain s' where run: "CACHE_CLASS var name s = Inr s'"
    by (simp add: cache_simps cache_inv_def)
  with tab inv show ?thesis by (blast intro: cache_inv_CACHE_CLASS)
next
  case False
  with inv show ?thesis by (simp add: cache_simps)
qed

lemma cache_inv_distinct:
  assumes "cache_inv s" and "classes s c = Some r" and "classes s d = Some r"
  shows "c = d"
proof -
  from assms(1) have "\<forall>c r. classes s c = Some r \<longrightarrow>
      refs (jenv s) r = Some (GlobalRef, ClassObj (class_name c))"
    by (simp add: cache_inv_def)
  with assms(2,3) have "Some (GlobalRef, ClassObj (class_name c)) =
      Some (GlobalRef, ClassObj (class_name d))"
    by metis
  then have "class_name c = class_name d" by simp
  then show ?thesis by (rule class_name_inj)
qed

lemma UNREF_CACHE_CLASS_total:
  assumes inv: "cache_inv s"
  shows "\<exists>s'. UNREF_CACHE_CLASS var name s = Inr s' \<and> cache_inv s' \<and> classes s' var = None
           \<and> (\<forall>c. c \<noteq> var \<longrightarrow> classes s' c = classes s c)"
proof (cases "classes s var")
  case None
  with inv show ?thesis by (simp add: cache_simps)
next
  case (Some r)
  with inv have live: "refs (jenv s) r = Some (GlobalRef, ClassObj (class_name var))"
    by (simp add: cache_inv_def)
  have other: "r' \<noteq> r" if "c \<noteq> var" and "classes s c = Some r'" for c r'
    using that Some cache_inv_distinct [OF inv] by blast
  from inv Some live other show ?thesis
    by (auto simp: cache_simps cache_inv_def intro: env_wf_del)
qed

lemma UNREF_CACHE_CLASS_frame:
  assumes "UNREF_CACHE_CLASS var name s = Inr s'"
  shows "classes s' var = None \<and> (\<forall>c. c \<noteq> var \<longrightarrow> classes s' c = classes s c)"
  using assms by (auto simp: UNREF_CACHE_CLASS_def sbind_eq_Inr split: if_splits)

section \<open>The two routines\<close>

lemma CLASS_TABLE_mem: "(c, class_name c) \<in> set CLASS_TABLE"
  using CLASS_TABLE_complete by (rule map_of_SomeD)

lemma cache_step_inv:
  "y \<in> set CLASS_TABLE \<Longrightarrow> cache_inv t \<Longrightarrow> (\<lambda>(var, name). CACHE_CLASS var name) y t = Inr t' \<Longrightarrow>
   cache_inv t'"
  by (cases y) (auto intro: cache_inv_CACHE_CLASS)

lemma Jcp_CacheClasses_inv:
  assumes "cache_inv s" and "Jcp_CacheClasses s = Inr s'"
  shows "cache_inv s'"
  using assms(2,1) unfolding Jcp_CacheClasses_def
  by (rule seq_each_invariant) (rule cache_step_inv)

text \<open>
  A property kept by every \<^verbatim>\<open>CACHE_CLASS\<close> of the table on a consistent cache
  holds after \<^verbatim>\<open>Jcp_CacheClasses\<close>: the step every routine-level proof below
  shares.
\<close>

lemma Jcp_CacheClasses_invariant:
  assumes run: "Jcp_CacheClasses s = Inr s'" and inv: "cache_inv s" and p: "P s"
    and step: "\<And>var name t t'. (var, name) \<in> set CLASS_TABLE \<Longrightarrow> cache_inv t \<Longrightarrow> P t \<Longrightarrow>
                 CACHE_CLASS var name t = Inr t' \<Longrightarrow> P t'"
  shows "cache_inv s' \<and> P s'"
  using run [unfolded Jcp_CacheClasses_def]
proof (rule seq_each_invariant [where P = "\<lambda>t. cache_inv t \<and> P t"])
  show "cache_inv s \<and> P s" using inv p ..
next
  fix y t t'
  assume y: "y \<in> set CLASS_TABLE" and pt: "cache_inv t \<and> P t"
    and st: "(\<lambda>(var, name). CACHE_CLASS var name) y t = Inr t'"
  obtain var name where yv: "y = (var, name)" by (cases y)
  from st yv have st': "CACHE_CLASS var name t = Inr t'" by simp
  from y yv have y': "(var, name) \<in> set CLASS_TABLE" by simp
  from pt have "cache_inv t" and "P t" by simp_all
  from cache_step_inv [OF y this(1) st] step [OF y' this st'] show "cache_inv t' \<and> P t'" ..
qed

lemma Jcp_CacheClasses_populates:
  assumes inv: "cache_inv s" and run: "Jcp_CacheClasses s = Inr s'"
  shows "classes s' c \<noteq> None"
proof -
  have "classes s' (fst (c, class_name c)) \<noteq> None"
  proof (rule seq_each_establish [where P = cache_inv and Q = "\<lambda>x t. classes t (fst x) \<noteq> None"])
    from run show "seq_each (\<lambda>(var, name). CACHE_CLASS var name) CLASS_TABLE s = Inr s'"
      by (simp add: Jcp_CacheClasses_def)
    show "cache_inv s" by (rule inv)
    show "(c, class_name c) \<in> set CLASS_TABLE" by (rule CLASS_TABLE_mem)
  next
    fix y t t'
    assume y: "y \<in> set CLASS_TABLE" and it: "cache_inv t"
      and st: "(\<lambda>(var, name). CACHE_CLASS var name) y t = Inr t'"
    obtain var name where yv: "y = (var, name)" by (cases y)
    from it have "env_wf (jenv t)" by (rule cache_inv_wf)
    with st yv have "classes t' var \<noteq> None" by (simp add: CACHE_CLASS_frame(1))
    with cache_step_inv [OF y it st] yv show "cache_inv t' \<and> classes t' (fst y) \<noteq> None" by simp
  next
    fix y z t t'
    assume it: "cache_inv t" and q: "classes t (fst z) \<noteq> None"
      and st: "(\<lambda>(var, name). CACHE_CLASS var name) y t = Inr t'"
    obtain var name where yv: "y = (var, name)" by (cases y)
    from it have wf: "env_wf (jenv t)" by (rule cache_inv_wf)
    show "classes t' (fst z) \<noteq> None"
    proof (cases "fst z = var")
      case True
      with st yv wf show ?thesis by (simp add: CACHE_CLASS_frame(1))
    next
      case False
      with st yv wf q show ?thesis by (simp add: CACHE_CLASS_frame(2))
    qed
  qed
  then show ?thesis by simp
qed

lemma unref_step_total:
  assumes "cache_inv t"
  shows "\<exists>t'. (\<lambda>(var, name). UNREF_CACHE_CLASS var name) y t = Inr t' \<and> cache_inv t'"
proof (cases y)
  case (Pair var name)
  from UNREF_CACHE_CLASS_total [OF assms, of var name] Pair show ?thesis by auto
qed

lemma Jcp_UnRefCacheClasses_invariant:
  assumes run: "Jcp_UnRefCacheClasses s = Inr s'" and inv: "cache_inv s" and p: "P s"
    and step: "\<And>var name t t'. cache_inv t \<Longrightarrow> P t \<Longrightarrow> UNREF_CACHE_CLASS var name t = Inr t' \<Longrightarrow> P t'"
  shows "cache_inv s' \<and> P s'"
  using run [unfolded Jcp_UnRefCacheClasses_def]
proof (rule seq_each_invariant [where P = "\<lambda>t. cache_inv t \<and> P t"])
  show "cache_inv s \<and> P s" using inv p ..
next
  fix y t t'
  assume pt: "cache_inv t \<and> P t" and st: "(\<lambda>(var, name). UNREF_CACHE_CLASS var name) y t = Inr t'"
  obtain var name where yv: "y = (var, name)" by (cases y)
  from st yv have st': "UNREF_CACHE_CLASS var name t = Inr t'" by simp
  from pt have it: "cache_inv t" and "P t" by simp_all
  from UNREF_CACHE_CLASS_total [OF it, of var name] st' have "cache_inv t'" by auto
  with step [OF it \<open>P t\<close> st'] show "cache_inv t' \<and> P t'" by simp
qed

lemma Jcp_UnRefCacheClasses_clears:
  assumes inv: "cache_inv s" and run: "Jcp_UnRefCacheClasses s = Inr s'"
  shows "classes s' c = None"
proof -
  have "classes s' (fst (c, class_name c)) = None"
  proof (rule seq_each_establish [where P = "\<lambda>_. True" and Q = "\<lambda>x t. classes t (fst x) = None"])
    from run show "seq_each (\<lambda>(var, name). UNREF_CACHE_CLASS var name) CLASS_TABLE s = Inr s'"
      by (simp add: Jcp_UnRefCacheClasses_def)
    show "(c, class_name c) \<in> set CLASS_TABLE" by (rule CLASS_TABLE_mem)
  next
    fix y t t'
    assume "(\<lambda>(var, name). UNREF_CACHE_CLASS var name) y t = Inr t'"
    then show "True \<and> classes t' (fst y) = None"
      by (cases y) (simp add: UNREF_CACHE_CLASS_frame)
  next
    fix y z t t'
    assume q: "classes t (fst z) = None"
      and st: "(\<lambda>(var, name). UNREF_CACHE_CLASS var name) y t = Inr t'"
    obtain var name where yv: "y = (var, name)" by (cases y)
    with st have "classes t' var = None \<and> (\<forall>c. c \<noteq> var \<longrightarrow> classes t' c = classes t c)"
      by (simp add: UNREF_CACHE_CLASS_frame)
    with q show "classes t' (fst z) = None" by (cases "fst z = var") auto
  qed simp
  then show ?thesis by simp
qed

lemma Jcp_CacheClasses_total:
  assumes inv: "cache_inv s" and np: "pending (jenv s) = None"
    and ld: "list_all (\<lambda>(var, name). loadable (jenv s) name) CLASS_TABLE"
  shows "\<exists>s'. Jcp_CacheClasses s = Inr s' \<and> cache_inv s' \<and> pending (jenv s') = None"
proof -
  let ?P = "\<lambda>t. cache_inv t \<and> pending (jenv t) = None \<and> loadable (jenv t) = loadable (jenv s)"
  have "\<exists>s'. seq_each (\<lambda>(var, name). CACHE_CLASS var name) CLASS_TABLE s = Inr s' \<and> ?P s'"
  proof (rule seq_each_total)
    show "?P s" using inv np by simp
  next
    fix y t
    assume y: "y \<in> set CLASS_TABLE" and pt: "?P t"
    obtain var name where yv: "y = (var, name)" by (cases y)
    from ld y yv pt have "loadable (jenv t) name" by (auto simp: list_all_iff)
    with y yv pt obtain t' where st: "CACHE_CLASS var name t = Inr t'" and "cache_inv t'"
      using CACHE_CLASS_total by blast
    moreover from pt have "env_wf (jenv t)" by (simp add: cache_inv_def)
    ultimately show "\<exists>t'. (\<lambda>(var, name). CACHE_CLASS var name) y t = Inr t' \<and> ?P t'"
      using pt yv by (auto simp: CACHE_CLASS_frame(3,4))
  qed
  then show ?thesis by (auto simp: Jcp_CacheClasses_def)
qed

lemma UNREF_CACHE_CLASS_env:
  assumes "UNREF_CACHE_CLASS var name t = Inr t'"
  shows "jenv t' = (case classes t var of None \<Rightarrow> jenv t
                    | Some r \<Rightarrow> (jenv t)\<lparr>refs := (refs (jenv t))(r := None)\<rparr>)"
  using assms
  by (auto simp: UNREF_CACHE_CLASS_def DeleteGlobalRef_def sbind_eq_Inr
           split: if_splits option.splits ref_kind.splits)

lemma cache_grows_refl: "cache_grows s s"
  by (simp add: cache_grows_def)

lemma cache_grows_trans:
  assumes "cache_grows s t" and "cache_grows t u"
  shows "cache_grows s u"
  unfolding cache_grows_def
proof (intro conjI allI impI)
  fix c assume "classes s c \<noteq> None"
  with assms show "classes u c = classes s c" by (auto simp: cache_grows_def)
next
  fix r assume "refs (jenv s) r \<noteq> None"
  with assms show "refs (jenv u) r = refs (jenv s) r" by (auto simp: cache_grows_def)
next
  fix r assume s0: "refs (jenv s) r = None" and u1: "refs (jenv u) r \<noteq> None"
  show "\<exists>c. classes s c = None \<and> classes u c = Some r"
  proof (cases "refs (jenv t) r = None")
    case True
    with assms(2) u1 obtain c where "classes t c = None" "classes u c = Some r"
      unfolding cache_grows_def by blast
    with assms(1) show ?thesis by (metis cache_grows_def)
  next
    case False
    with assms(1) s0 obtain c where "classes s c = None" "classes t c = Some r"
      unfolding cache_grows_def by blast
    with assms(2) show ?thesis by (metis cache_grows_def option.distinct(1))
  qed
qed

lemma CACHE_CLASS_grows:
  assumes "CACHE_CLASS var name t = Inr t'" and "env_wf (jenv t)"
  shows "cache_grows t t'"
  using assms
proof (cases rule: CACHE_CLASS_Inr_cases)
  case 1
  then show ?thesis by (simp add: cache_grows_refl)
next
  case 2
  have fresh: "refs (jenv t) (Suc (next_ref (jenv t))) = None"
    using assms(2) by (simp add: env_wf_def)
  with 2 show ?thesis by (auto simp: cache_grows_def)
qed

text \<open>What growing means for the reference table: no local reference appears, and
  the new global references are exactly those of the entries that were set.\<close>

lemma cache_grows_refs:
  assumes gr: "cache_grows s s'" and inv': "cache_inv s'"
  shows "locals_of (jenv s') = locals_of (jenv s) \<and>
    globals_of (jenv s') = globals_of (jenv s) \<union> {r. \<exists>c. classes s c = None \<and> classes s' c = Some r}"
proof -
  have new_global: "refs (jenv s') r = Some (GlobalRef, ClassObj (class_name c))"
    if "classes s' c = Some r" for c r
    using inv' that by (simp add: cache_inv_def)
  have old: "refs (jenv s') r = refs (jenv s) r" if "refs (jenv s) r \<noteq> None" for r
    using gr that by (simp add: cache_grows_def)
  have fresh: "\<exists>c. classes s c = None \<and> classes s' c = Some r"
    if "refs (jenv s) r = None" and "refs (jenv s') r \<noteq> None" for r
    using gr that by (simp add: cache_grows_def)
  have "locals_of (jenv s') = locals_of (jenv s)"
  proof (intro equalityI subsetI)
    fix r assume "r \<in> locals_of (jenv s')"
    then obtain ob where l: "refs (jenv s') r = Some (LocalRef, ob)" by (auto simp: locals_of_def)
    show "r \<in> locals_of (jenv s)"
    proof (cases "refs (jenv s) r = None")
      case True
      moreover from l have "refs (jenv s') r \<noteq> None" by simp
      ultimately obtain c where "classes s' c = Some r" using fresh by blast
      with l new_global show ?thesis by simp
    next
      case False
      with l old show ?thesis by (simp add: locals_of_def)
    qed
  next
    fix r assume "r \<in> locals_of (jenv s)"
    with old show "r \<in> locals_of (jenv s')" by (auto simp: locals_of_def)
  qed
  moreover have "globals_of (jenv s') = globals_of (jenv s) \<union> {r. \<exists>c. classes s c = None \<and> classes s' c = Some r}"
  proof (intro equalityI subsetI)
    fix r assume "r \<in> globals_of (jenv s')"
    then obtain ob where g': "refs (jenv s') r = Some (GlobalRef, ob)" by (auto simp: globals_of_def)
    show "r \<in> globals_of (jenv s) \<union> {r. \<exists>c. classes s c = None \<and> classes s' c = Some r}"
    proof (cases "refs (jenv s) r = None")
      case True
      with g' fresh show ?thesis by fastforce
    next
      case False
      with g' old show ?thesis by (simp add: globals_of_def)
    qed
  next
    fix r assume "r \<in> globals_of (jenv s) \<union> {r. \<exists>c. classes s c = None \<and> classes s' c = Some r}"
    with old new_global show "r \<in> globals_of (jenv s')" by (auto simp: globals_of_def)
  qed
  ultimately show ?thesis ..
qed

lemma unref_total:
  assumes "cache_inv s"
  shows "\<exists>s'. Jcp_UnRefCacheClasses s = Inr s' \<and> cache_inv s'"
  unfolding Jcp_UnRefCacheClasses_def
  by (rule seq_each_total [where P = cache_inv, OF assms]) (rule unref_step_total)

text \<open>One release step, read on the environment of the starting state.\<close>

lemma unref_step_release:
  assumes inv: "cache_inv t" and st: "UNREF_CACHE_CLASS var name t = Inr t'"
    and cl: "\<forall>c. classes t c = classes s c \<or> classes t c = None"
    and env: "jenv t = (jenv s)\<lparr>refs := refs (jenv s) |` (- {r. \<exists>c. classes s c = Some r \<and> classes t c = None})\<rparr>"
  shows "(\<forall>c. classes t' c = classes s c \<or> classes t' c = None) \<and>
    jenv t' = (jenv s)\<lparr>refs := refs (jenv s) |` (- {r. \<exists>c. classes s c = Some r \<and> classes t' c = None})\<rparr>"
proof -
  from st have fr: "classes t' var = None" "\<And>c. c \<noteq> var \<Longrightarrow> classes t' c = classes t c"
    by (simp_all add: UNREF_CACHE_CLASS_frame)
  have cl': "\<forall>c. classes t' c = classes s c \<or> classes t' c = None"
    using cl fr by (metis)
  show ?thesis
  proof (cases "classes t var")
    case None
    have "classes t' = classes t"
    proof (rule ext)
      fix x show "classes t' x = classes t x" by (cases "x = var") (simp_all add: fr None)
    qed
    with None st env cl' show ?thesis by (simp add: UNREF_CACHE_CLASS_env)
  next
    case (Some r)
    with cl have sv: "classes s var = Some r" by (metis option.distinct(1))
    have "{r'. \<exists>c. classes s c = Some r' \<and> classes t' c = None}
        = insert r {r'. \<exists>c. classes s c = Some r' \<and> classes t c = None}"
    proof (intro equalityI subsetI)
      fix r' assume "r' \<in> {r'. \<exists>c. classes s c = Some r' \<and> classes t' c = None}"
      then obtain c where c: "classes s c = Some r'" "classes t' c = None" by blast
      show "r' \<in> insert r {r'. \<exists>c. classes s c = Some r' \<and> classes t c = None}"
      proof (cases "c = var")
        case True
        with c sv show ?thesis by simp
      next
        case False
        with c fr(2) show ?thesis by auto
      qed
    next
      fix r' assume "r' \<in> insert r {r'. \<exists>c. classes s c = Some r' \<and> classes t c = None}"
      then show "r' \<in> {r'. \<exists>c. classes s c = Some r' \<and> classes t' c = None}"
      proof
        assume "r' = r"
        with sv fr(1) show ?thesis by blast
      next
        assume "r' \<in> {r'. \<exists>c. classes s c = Some r' \<and> classes t c = None}"
        then obtain c where c: "classes s c = Some r'" "classes t c = None" by blast
        with Some have "c \<noteq> var" by auto
        with c fr(2) show ?thesis by auto
      qed
    qed
    with Some st env cl' show ?thesis
      by (simp add: UNREF_CACHE_CLASS_env Compl_insert)
  qed
qed

section \<open>Properties of the class cache\<close>

lemma boot_inv: "cache_inv boot_state"
  by (simp add: cache_inv_def boot_state_def boot_env_def env_wf_def)

lemma boot_pending: "pending (jenv boot_state) = None"
  by (simp add: boot_state_def boot_env_def)

lemma boot_loadable: "list_all (\<lambda>(var, name). loadable (jenv boot_state) name) CLASS_TABLE"
  by (force simp: boot_state_def boot_env_def list_all_iff)

text \<open>
  C1. \<^verbatim>\<open>Jcp_CacheClasses\<close>, run on a consistent cache with nothing pending and
  every class of the table on the class path, returns without fault and leaves
  every entry of the table a live global reference to its own class.
\<close>

theorem Jcp_CacheClasses_resolves_all:
  assumes "cache_inv s" and "pending (jenv s) = None"
    and "list_all (\<lambda>(var, name). loadable (jenv s) name) CLASS_TABLE"
  shows "\<exists>s'. Jcp_CacheClasses s = Inr s' \<and> cache_inv s' \<and> pending (jenv s') = None \<and>
     (\<forall>c. \<exists>r. classes s' c = Some r \<and> refs (jenv s') r = Some (GlobalRef, ClassObj (class_name c)))"
proof -
  from Jcp_CacheClasses_total [OF assms] obtain s' where
    run: "Jcp_CacheClasses s = Inr s'" and inv': "cache_inv s'" and np: "pending (jenv s') = None"
    by blast
  have "\<exists>r. classes s' c = Some r \<and> refs (jenv s') r = Some (GlobalRef, ClassObj (class_name c))" for c
    using Jcp_CacheClasses_populates [OF assms(1) run, of c] inv' by (auto simp: cache_inv_def)
  with run inv' np show ?thesis by blast
qed

theorem Jcp_CacheClasses_resolves_all_witness:
  "cache_inv boot_state \<and> pending (jenv boot_state) = None \<and>
   (list_all (\<lambda>(var, name). loadable (jenv boot_state) name) CLASS_TABLE) \<and>
   (\<exists>s'. Jcp_CacheClasses boot_state = Inr s' \<and> cache_inv s' \<and> pending (jenv s') = None \<and>
     (\<forall>c. \<exists>r. classes s' c = Some r \<and> refs (jenv s') r = Some (GlobalRef, ClassObj (class_name c))))"
proof -
  have "\<exists>s'. Jcp_CacheClasses boot_state = Inr s' \<and> cache_inv s' \<and> pending (jenv s') = None \<and>
     (\<forall>c. \<exists>r. classes s' c = Some r \<and> refs (jenv s') r = Some (GlobalRef, ClassObj (class_name c)))"
    by (rule Jcp_CacheClasses_resolves_all [OF boot_inv boot_pending boot_loadable])
  with boot_inv boot_pending boot_loadable show ?thesis by (intro conjI)
qed

text \<open>
  C2. \<^verbatim>\<open>Jcp_CacheClasses\<close> is idempotent: once it has returned, running it
  again changes nothing (every entry is non-\<^verbatim>\<open>NULL\<close>, so every
  \<^verbatim>\<open>CACHE_CLASS\<close> skips), so calling it on every entry point is safe.
\<close>

theorem Jcp_CacheClasses_idempotent:
  assumes "cache_inv s" and "Jcp_CacheClasses s = Inr s'"
  shows "Jcp_CacheClasses s' = Inr s'"
  unfolding Jcp_CacheClasses_def
proof (rule seq_each_fixpoint)
  fix x assume "x \<in> set CLASS_TABLE"
  obtain var name where "x = (var, name)" by (cases x)
  moreover have "classes s' var \<noteq> None" by (rule Jcp_CacheClasses_populates [OF assms])
  ultimately show "(\<lambda>(var, name). CACHE_CLASS var name) x s' = Inr s'"
    by (simp add: cache_simps)
qed

theorem Jcp_CacheClasses_idempotent_witness:
  "\<exists>s'. cache_inv boot_state \<and> Jcp_CacheClasses boot_state = Inr s' \<and> Jcp_CacheClasses s' = Inr s'"
proof -
  obtain s' where "Jcp_CacheClasses boot_state = Inr s'"
    using Jcp_CacheClasses_total [OF boot_inv boot_pending boot_loadable] by blast
  with boot_inv Jcp_CacheClasses_idempotent [OF boot_inv] show ?thesis by blast
qed

text \<open>
  C3. \<^verbatim>\<open>Jcp_UnRefCacheClasses\<close> never faults on a consistent cache, whether
  no entry, some entries or all entries were populated, and leaves every entry
  \<^verbatim>\<open>NULL\<close> and the cache consistent.
\<close>

theorem Jcp_UnRefCacheClasses_total:
  assumes "cache_inv s"
  shows "\<exists>s'. Jcp_UnRefCacheClasses s = Inr s' \<and> cache_inv s' \<and> (\<forall>c. classes s' c = None)"
  using unref_total [OF assms] Jcp_UnRefCacheClasses_clears [OF assms] by blast

theorem Jcp_UnRefCacheClasses_total_witness:
  "\<exists>s1. Jcp_CacheClasses boot_state = Inr s1 \<and> cache_inv s1 \<and>
     (\<exists>s'. Jcp_UnRefCacheClasses s1 = Inr s' \<and> cache_inv s' \<and> (\<forall>c. classes s' c = None))"
proof -
  obtain s1 where "Jcp_CacheClasses boot_state = Inr s1" and "cache_inv s1"
    using Jcp_CacheClasses_total [OF boot_inv boot_pending boot_loadable] by blast
  with Jcp_UnRefCacheClasses_total [of s1] show ?thesis by blast
qed

text \<open>
  C4. \<^verbatim>\<open>Jcp_UnRefCacheClasses\<close> releases exactly the cached global
  references: the JNI environment afterwards is the one before with the
  references held by the entries removed, and nothing else changed.
\<close>

theorem Jcp_UnRefCacheClasses_releases:
  assumes inv: "cache_inv s" and run: "Jcp_UnRefCacheClasses s = Inr s'"
  shows "jenv s' = (jenv s)\<lparr>refs := refs (jenv s) |` (- ran (classes s))\<rparr>"
proof -
  let ?S = "\<lambda>t. {r. \<exists>c. classes s c = Some r \<and> classes t c = None}"
  let ?P = "\<lambda>t. (\<forall>c. classes t c = classes s c \<or> classes t c = None) \<and>
                 jenv t = (jenv s)\<lparr>refs := refs (jenv s) |` (- ?S t)\<rparr>"
  have "cache_inv s' \<and> ?P s'"
  proof (rule Jcp_UnRefCacheClasses_invariant [OF run inv])
    show "?P s" by (simp add: restrict_map_def)
  next
    fix var name t t'
    assume it: "cache_inv t" and pt: "?P t" and st: "UNREF_CACHE_CLASS var name t = Inr t'"
    from pt have b: "\<forall>c. classes t c = classes s c \<or> classes t c = None"
      and c: "jenv t = (jenv s)\<lparr>refs := refs (jenv s) |` (- ?S t)\<rparr>" by simp_all
    show "?P t'" by (rule unref_step_release [OF it st b c])
  qed
  moreover have "?S s' = ran (classes s)"
    using Jcp_UnRefCacheClasses_clears [OF inv run] by (auto simp: ran_def)
  ultimately show ?thesis by simp
qed

theorem Jcp_UnRefCacheClasses_releases_witness:
  "\<exists>s1 s'. Jcp_CacheClasses boot_state = Inr s1 \<and> cache_inv s1 \<and> Jcp_UnRefCacheClasses s1 = Inr s' \<and>
     jenv s' = (jenv s1)\<lparr>refs := refs (jenv s1) |` (- ran (classes s1))\<rparr>"
proof -
  obtain s1 where c: "Jcp_CacheClasses boot_state = Inr s1" and i: "cache_inv s1"
    using Jcp_CacheClasses_total [OF boot_inv boot_pending boot_loadable] by blast
  obtain s' where "Jcp_UnRefCacheClasses s1 = Inr s'"
    using unref_total [OF i] by blast
  with c i Jcp_UnRefCacheClasses_releases [OF i] show ?thesis by blast
qed

text \<open>
  C5. \<^verbatim>\<open>Jcp_CacheClasses\<close> leaks no reference: the local references the
  JVM holds afterwards are the ones it held before (each \<^verbatim>\<open>FindClass\<close> result
  is deleted), and the global references are the ones before plus exactly one
  per entry that was \<^verbatim>\<open>NULL\<close> and is now set.
\<close>

theorem Jcp_CacheClasses_no_leak:
  assumes inv: "cache_inv s" and run: "Jcp_CacheClasses s = Inr s'"
  shows "locals_of (jenv s') = locals_of (jenv s) \<and>
    globals_of (jenv s') = globals_of (jenv s) \<union> {r. \<exists>c. classes s c = None \<and> classes s' c = Some r}"
proof -
  have "cache_inv s' \<and> cache_grows s s'"
    by (rule Jcp_CacheClasses_invariant [OF run inv cache_grows_refl])
       (blast intro: cache_grows_trans CACHE_CLASS_grows cache_inv_wf)
  then have gr: "cache_grows s s'" and inv': "cache_inv s'" by simp_all
  show ?thesis by (rule cache_grows_refs [OF gr inv'])
qed

theorem Jcp_CacheClasses_no_leak_witness:
  "\<exists>s'. cache_inv boot_state \<and> Jcp_CacheClasses boot_state = Inr s' \<and>
     locals_of (jenv s') = locals_of (jenv boot_state) \<and>
     globals_of (jenv s') = globals_of (jenv boot_state) \<union>
       {r. \<exists>c. classes boot_state c = None \<and> classes s' c = Some r}"
proof -
  obtain s' where "Jcp_CacheClasses boot_state = Inr s'"
    using Jcp_CacheClasses_total [OF boot_inv boot_pending boot_loadable] by blast
  with boot_inv Jcp_CacheClasses_no_leak [OF boot_inv] show ?thesis by blast
qed

text \<open>
  C6. When a class of the table is not on the class path, \<^verbatim>\<open>CACHE_CLASS\<close>
  does not check \<^verbatim>\<open>FindClass\<close>'s \<^verbatim>\<open>NULL\<close> result: it calls
  \<^verbatim>\<open>NewGlobalRef\<close> with the \<^verbatim>\<open>NoClassDefFoundError\<close> still pending, which
  the JNI specification forbids. \<^verbatim>\<open>Jcp_CacheClasses\<close> then ends in exactly
  that fault, whichever entries come before.
\<close>

lemma CACHE_CLASS_only_fault:
  "cache_inv t \<Longrightarrow> pending (jenv t) = None \<Longrightarrow> CACHE_CLASS var name t = Inl e \<Longrightarrow>
   e = PendingException ''NewGlobalRef''"
  by (cases "classes t var = None"; cases "loadable (jenv t) name")
     (auto simp: cache_simps cache_inv_def)

theorem Jcp_CacheClasses_missing_class:
  assumes inv: "cache_inv s" and np: "pending (jenv s) = None"
    and c0: "classes s c = None" and miss: "\<not> loadable (jenv s) (class_name c)"
  shows "Jcp_CacheClasses s = Inl (PendingException ''NewGlobalRef'')"
proof -
  let ?f = "\<lambda>(var, name). CACHE_CLASS var name"
  let ?P = "\<lambda>t. cache_inv t \<and> pending (jenv t) = None \<and> classes t c = None \<and>
                 \<not> loadable (jenv t) (class_name c)"
  have "\<exists>e. seq_each ?f CLASS_TABLE s = Inl e"
  proof (rule seq_each_fault [where x = "(c, class_name c)" and P = ?P])
    show "(c, class_name c) \<in> set CLASS_TABLE" by (rule CLASS_TABLE_mem)
    show "?P s" using inv np c0 miss by simp
  next
    fix y t t'
    assume y: "y \<in> set CLASS_TABLE" and ne: "y \<noteq> (c, class_name c)" and pt: "?P t"
      and st: "?f y t = Inr t'"
    obtain var name where yv: "y = (var, name)" by (cases y)
    from y yv have "name = class_name var" by (simp add: in_CLASS_TABLE)
    with ne yv have "var \<noteq> c" by auto
    moreover from pt have "env_wf (jenv t)" by (simp add: cache_inv_def)
    ultimately show "?P t'"
      using pt st yv cache_step_inv [OF y _ st] CACHE_CLASS_frame [of var name t t'] by auto
  next
    fix t assume "?P t"
    then show "\<exists>e. ?f (c, class_name c) t = Inl e" by (simp add: cache_simps)
  qed
  then obtain e where run: "seq_each ?f CLASS_TABLE s = Inl e" by blast
  have "e = PendingException ''NewGlobalRef''"
  proof (rule seq_each_Inl_value [OF run, where P = "\<lambda>t. cache_inv t \<and> pending (jenv t) = None"])
    show "cache_inv s \<and> pending (jenv s) = None" using inv np by simp
  next
    fix y t t'
    assume y: "y \<in> set CLASS_TABLE" and pt: "cache_inv t \<and> pending (jenv t) = None"
      and st: "?f y t = Inr t'"
    obtain var name where yv: "y = (var, name)" by (cases y)
    from pt have "env_wf (jenv t)" by (simp add: cache_inv_def)
    with pt st yv cache_step_inv [OF y _ st] CACHE_CLASS_frame(3) [of var name t t']
    show "cache_inv t' \<and> pending (jenv t') = None" by auto
  next
    fix y t e'
    assume "cache_inv t \<and> pending (jenv t) = None" and "?f y t = Inl e'"
    then show "e' = PendingException ''NewGlobalRef''"
      by (cases y) (auto intro: CACHE_CLASS_only_fault)
  qed
  with run show ?thesis by (simp add: Jcp_CacheClasses_def)
qed

theorem Jcp_CacheClasses_missing_class_witness:
  "cache_inv (boot_state\<lparr>jenv := boot_env\<lparr>loadable := (\<lambda>n. n \<noteq> ''java/sql/Date'')\<rparr>\<rparr>) \<and>
   pending (jenv (boot_state\<lparr>jenv := boot_env\<lparr>loadable := (\<lambda>n. n \<noteq> ''java/sql/Date'')\<rparr>\<rparr>)) = None \<and>
   classes (boot_state\<lparr>jenv := boot_env\<lparr>loadable := (\<lambda>n. n \<noteq> ''java/sql/Date'')\<rparr>\<rparr>) JSQLDATE_TYPE = None \<and>
   \<not> loadable (jenv (boot_state\<lparr>jenv := boot_env\<lparr>loadable := (\<lambda>n. n \<noteq> ''java/sql/Date'')\<rparr>\<rparr>))
       (class_name JSQLDATE_TYPE) \<and>
   Jcp_CacheClasses (boot_state\<lparr>jenv := boot_env\<lparr>loadable := (\<lambda>n. n \<noteq> ''java/sql/Date'')\<rparr>\<rparr>)
     = Inl (PendingException ''NewGlobalRef'')"
proof -
  let ?s = "boot_state\<lparr>jenv := boot_env\<lparr>loadable := (\<lambda>n. n \<noteq> ''java/sql/Date'')\<rparr>\<rparr>"
  have h: "cache_inv ?s" "pending (jenv ?s) = None" "classes ?s JSQLDATE_TYPE = None"
    "\<not> loadable (jenv ?s) (class_name JSQLDATE_TYPE)"
    by (simp_all add: cache_inv_def boot_state_def boot_env_def env_wf_def class_name_def CLASS_TABLE_def)
  with Jcp_CacheClasses_missing_class [OF h] show ?thesis by simp
qed

end
