(* ===== verification/CacheSpec.thy ===== *)
theory CacheSpec
  imports ClassCache
begin

text \<open>
  The abstract contract of the class cache and its refinement. The spec
  (section 4.1 and the strategy for the process-wide cache) describes a
  registry exposing an idempotent \<open>ensure\<close> per entry, \<open>CacheClasses\<close> as
  \<open>ensure\<close> of every table entry and \<open>releaseAll\<close> as emptying it. The registry
  is a map from the table's globals to the class each resolves to; the
  abstraction function reads it off the globals and the JNI reference table. A
  lifecycle is an explicit sequence of \<^verbatim>\<open>Jcp_CacheClasses\<close> and
  \<^verbatim>\<open>Jcp_UnRefCacheClasses\<close> calls, as an embedding runtime makes them when it
  starts, stops and restarts the interpreter.
\<close>

type_synonym registry = "class_id \<rightharpoonup> string"

section \<open>The abstract registry\<close>

definition ensure :: "class_id \<Rightarrow> string \<Rightarrow> registry \<Rightarrow> registry" where
  "ensure c n R = (if R c = None then R(c \<mapsto> n) else R)"

definition ensure_all :: "registry \<Rightarrow> registry" where
  "ensure_all R = map_of CLASS_TABLE ++ R"

definition release_all :: "registry \<Rightarrow> registry" where
  "release_all R = Map.empty"

datatype cache_op = CacheClasses | UnRefCacheClasses

fun abs_op :: "cache_op \<Rightarrow> registry \<Rightarrow> registry" where
  "abs_op CacheClasses = ensure_all"
| "abs_op UnRefCacheClasses = release_all"

definition abs_run :: "cache_op list \<Rightarrow> registry \<Rightarrow> registry" where
  "abs_run ops R = foldl (\<lambda>R op. abs_op op R) R ops"

section \<open>The concrete lifecycle\<close>

fun cache_op_step :: "cache_op \<Rightarrow> pemja_state \<Rightarrow> jni_fault + pemja_state" where
  "cache_op_step CacheClasses = Jcp_CacheClasses"
| "cache_op_step UnRefCacheClasses = Jcp_UnRefCacheClasses"

definition run_ops :: "cache_op list \<Rightarrow> pemja_state \<Rightarrow> jni_fault + pemja_state" where
  "run_ops ops = seq_each cache_op_step ops"

text \<open>The class an entry resolves to: the object its global reference holds.\<close>

definition cache_abs :: "pemja_state \<Rightarrow> registry" where
  "cache_abs s c = (case classes s c of
     None \<Rightarrow> None
   | Some r \<Rightarrow> (case refs (jenv s) r of Some (_, ClassObj n) \<Rightarrow> Some n | _ \<Rightarrow> None))"

text \<open>No reference is live but the cache's globals.\<close>

definition tidy :: "pemja_state \<Rightarrow> bool" where
  "tidy s \<longleftrightarrow> globals_of (jenv s) = ran (classes s) \<and> locals_of (jenv s) = {}"

text \<open>
  Global references no entry holds: nothing in the bridge will ever delete
  them.
\<close>

definition orphans :: "pemja_state \<Rightarrow> jref set" where
  "orphans s = globals_of (jenv s) - ran (classes s)"

definition lifecycle_ok :: "pemja_state \<Rightarrow> bool" where
  "lifecycle_ok s \<longleftrightarrow> cache_inv s \<and> tidy s \<and> pending (jenv s) = None \<and>
     list_all (\<lambda>(var, name). loadable (jenv s) name) CLASS_TABLE"

section \<open>Abstraction\<close>

lemma cache_abs_inv:
  "cache_inv s \<Longrightarrow> cache_abs s c = map_option (\<lambda>_. class_name c) (classes s c)"
  by (cases "classes s c") (auto simp: cache_abs_def cache_inv_def)

lemma ensure_all_inv:
  assumes "cache_inv s"
  shows "ensure_all (cache_abs s) = (\<lambda>c. Some (class_name c))"
  using assms CLASS_TABLE_complete
  by (auto simp: fun_eq_iff ensure_all_def map_add_def cache_abs_inv split: option.splits)

text \<open>
  One macro either leaves the reference sets alone, or adds one fresh global
  that the entry then holds; the local references are the same before and
  after.
\<close>

lemma CACHE_CLASS_ref_sets:
  assumes wf: "env_wf (jenv s)" and run: "CACHE_CLASS var name s = Inr s'"
  shows "(globals_of (jenv s') = globals_of (jenv s) \<and> ran (classes s') = ran (classes s) \<or>
          (\<exists>k. k \<notin> globals_of (jenv s) \<and> globals_of (jenv s') = insert k (globals_of (jenv s)) \<and>
               ran (classes s') = insert k (ran (classes s)))) \<and>
         locals_of (jenv s') = locals_of (jenv s)"
  using run wf
proof (cases rule: CACHE_CLASS_Inr_cases)
  case 1
  then show ?thesis by simp
next
  case 2
  let ?k = "Suc (next_ref (jenv s))"
  have fresh: "refs (jenv s) ?k = None"
    using wf by (simp add: env_wf_def)
  have "?k \<notin> globals_of (jenv s)"
    using fresh by (simp add: globals_of_def)
  moreover have "globals_of (jenv s') = insert ?k (globals_of (jenv s))"
    using 2 by (auto simp: globals_of_def)
  moreover have "ran (classes s') = insert ?k (ran (classes s))"
    using 2 by (simp add: ran_map_upd)
  moreover have "locals_of (jenv s') = locals_of (jenv s)"
    using 2 fresh by (auto simp: locals_of_def)
  ultimately show ?thesis by blast
qed

lemma CACHE_CLASS_tidy:
  assumes inv: "cache_inv s" and td: "tidy s" and run: "CACHE_CLASS var name s = Inr s'"
  shows "tidy s'"
  using CACHE_CLASS_ref_sets [OF cache_inv_wf [OF inv] run] td by (auto simp: tidy_def)

lemma UNREF_CACHE_CLASS_tidy:
  assumes inv: "cache_inv s" and td: "tidy s" and run: "UNREF_CACHE_CLASS var name s = Inr s'"
  shows "tidy s'"
proof (cases "classes s var")
  case None
  with run td show ?thesis by (simp add: cache_simps)
next
  case (Some r)
  with inv have live: "refs (jenv s) r = Some (GlobalRef, ClassObj (class_name var))"
    by (simp add: cache_inv_def)
  with Some run have s': "s' = s\<lparr>jenv := (jenv s)\<lparr>refs := (refs (jenv s))(r := None)\<rparr>,
                                 classes := (classes s)(var := None)\<rparr>"
    by (simp add: cache_simps)
  have g: "globals_of (jenv s') = globals_of (jenv s) - {r}"
    using s' by (auto simp: globals_of_def)
  have l: "locals_of (jenv s') = locals_of (jenv s) - {r}"
    using s' by (auto simp: locals_of_def)
  have r: "ran (classes s') = ran (classes s) - {r}"
  proof (rule set_eqI, rule iffI)
    fix x assume "x \<in> ran (classes s')"
    then obtain a where a: "classes s' a = Some x" by (auto simp: ran_def)
    with s' have av: "a \<noteq> var" and a': "classes s a = Some x" by (auto split: if_splits)
    have "x \<noteq> r"
    proof
      assume "x = r"
      with a' Some have "a = var" using cache_inv_distinct [OF inv] by blast
      with av show False by simp
    qed
    with a' show "x \<in> ran (classes s) - {r}" by (auto intro: ranI)
  next
    fix x assume "x \<in> ran (classes s) - {r}"
    then obtain a where a: "classes s a = Some x" and xr: "x \<noteq> r" by (auto simp: ran_def)
    with Some have "a \<noteq> var" by auto
    with a s' show "x \<in> ran (classes s')" by (auto intro: ranI)
  qed
  from td g l r show ?thesis by (simp add: tidy_def)
qed

lemma UNREF_CACHE_CLASS_same_env:
  "UNREF_CACHE_CLASS var name t = Inr t' \<Longrightarrow>
   pending (jenv t') = pending (jenv t) \<and> loadable (jenv t') = loadable (jenv t)"
  by (drule UNREF_CACHE_CLASS_env) (simp split: option.splits)

lemma Jcp_CacheClasses_env_frame:
  assumes inv: "cache_inv s" and run: "Jcp_CacheClasses s = Inr s'"
  shows "pending (jenv s') = pending (jenv s) \<and> loadable (jenv s') = loadable (jenv s) \<and>
         declares (jenv s') = declares (jenv s)"
proof -
  have "cache_inv s' \<and> pending (jenv s') = pending (jenv s) \<and> loadable (jenv s') = loadable (jenv s) \<and>
        declares (jenv s') = declares (jenv s)"
  proof (rule Jcp_CacheClasses_invariant [OF run inv])
    fix var name t t'
    assume "cache_inv t" and P: "pending (jenv t) = pending (jenv s) \<and> loadable (jenv t) = loadable (jenv s) \<and>
        declares (jenv t) = declares (jenv s)" and st: "CACHE_CLASS var name t = Inr t'"
    with CACHE_CLASS_frame(3-5) [OF st cache_inv_wf]
    show "pending (jenv t') = pending (jenv s) \<and> loadable (jenv t') = loadable (jenv s) \<and>
          declares (jenv t') = declares (jenv s)" by simp
  qed simp
  then show ?thesis by blast
qed

section \<open>Each routine implements its abstract operation\<close>

lemma Jcp_CacheClasses_step:
  assumes ok: "lifecycle_ok s"
  shows "\<exists>s'. Jcp_CacheClasses s = Inr s' \<and> lifecycle_ok s' \<and> cache_abs s' = ensure_all (cache_abs s)"
proof -
  from ok have inv: "cache_inv s" and np: "pending (jenv s) = None"
    and ld: "list_all (\<lambda>(var, name). loadable (jenv s) name) CLASS_TABLE"
    by (simp_all add: lifecycle_ok_def)
  from Jcp_CacheClasses_total [OF inv np ld] obtain s' where run: "Jcp_CacheClasses s = Inr s'"
    and inv': "cache_inv s'" and np': "pending (jenv s') = None" by blast
  have "cache_inv s' \<and> tidy s'"
    using ok by (intro Jcp_CacheClasses_invariant [OF run inv])
                (auto simp: lifecycle_ok_def intro: CACHE_CLASS_tidy)
  moreover have "loadable (jenv s') = loadable (jenv s)"
    using Jcp_CacheClasses_env_frame [OF inv run] by simp
  ultimately have "cache_inv s' \<and> tidy s' \<and> loadable (jenv s') = loadable (jenv s)" by blast
  with inv' np' ld have "lifecycle_ok s'" by (simp add: lifecycle_ok_def)
  moreover have "cache_abs s' = ensure_all (cache_abs s)"
  proof -
    have "cache_abs s' c = Some (class_name c)" for c
      using Jcp_CacheClasses_populates [OF inv run, of c] cache_abs_inv [OF inv', of c] by auto
    with ensure_all_inv [OF inv] show ?thesis by (simp add: fun_eq_iff)
  qed
  ultimately show ?thesis using run by blast
qed

lemma Jcp_UnRefCacheClasses_step:
  assumes ok: "lifecycle_ok s"
  shows "\<exists>s'. Jcp_UnRefCacheClasses s = Inr s' \<and> lifecycle_ok s' \<and>
           cache_abs s' = release_all (cache_abs s)"
proof -
  from ok have inv: "cache_inv s" by (simp add: lifecycle_ok_def)
  from unref_total [OF inv] obtain s' where run: "Jcp_UnRefCacheClasses s = Inr s'"
    and inv': "cache_inv s'" by blast
  have "cache_inv s' \<and> tidy s' \<and> pending (jenv s') = pending (jenv s) \<and> loadable (jenv s') = loadable (jenv s)"
  proof (rule Jcp_UnRefCacheClasses_invariant [OF run inv])
    show "tidy s \<and> pending (jenv s) = pending (jenv s) \<and> loadable (jenv s) = loadable (jenv s)"
      using ok by (simp add: lifecycle_ok_def)
  next
    fix var name t t'
    assume it: "cache_inv t" and P: "tidy t \<and> pending (jenv t) = pending (jenv s) \<and> loadable (jenv t) = loadable (jenv s)"
      and st: "UNREF_CACHE_CLASS var name t = Inr t'"
    from P have td: "tidy t" by simp
    from it td st have "tidy t'" by (rule UNREF_CACHE_CLASS_tidy)
    with UNREF_CACHE_CLASS_same_env [OF st] P
    show "tidy t' \<and> pending (jenv t') = pending (jenv s) \<and> loadable (jenv t') = loadable (jenv s)" by simp
  qed
  with ok have "lifecycle_ok s'" by (simp add: lifecycle_ok_def)
  moreover have "cache_abs s' = release_all (cache_abs s)"
    using Jcp_UnRefCacheClasses_clears [OF inv run]
    by (simp add: fun_eq_iff cache_abs_def release_all_def)
  ultimately show ?thesis using run by blast
qed

lemma cache_op_step_sim:
  "lifecycle_ok s \<Longrightarrow>
   \<exists>s'. cache_op_step op s = Inr s' \<and> lifecycle_ok s' \<and> cache_abs s' = abs_op op (cache_abs s)"
  by (cases op) (simp_all add: Jcp_CacheClasses_step Jcp_UnRefCacheClasses_step)

lemma run_ops_sim:
  "lifecycle_ok s \<Longrightarrow>
   \<exists>s'. run_ops ops s = Inr s' \<and> lifecycle_ok s' \<and> cache_abs s' = abs_run ops (cache_abs s)"
proof (induction ops arbitrary: s)
  case Nil
  then show ?case by (simp add: run_ops_def abs_run_def)
next
  case (Cons op ops)
  from cache_op_step_sim [OF Cons.prems] obtain t where st: "cache_op_step op s = Inr t"
    and ok: "lifecycle_ok t" and ab: "cache_abs t = abs_op op (cache_abs s)" by blast
  from Cons.IH [OF ok] obtain s' where "run_ops ops t = Inr s'" and "lifecycle_ok s'"
    and "cache_abs s' = abs_run ops (cache_abs t)" by blast
  with st ab show ?case by (auto simp: run_ops_def abs_run_def)
qed

lemma boot_lifecycle_ok: "lifecycle_ok boot_state"
  using boot_inv boot_pending boot_loadable
  by (simp add: lifecycle_ok_def tidy_def globals_of_def locals_of_def boot_state_def boot_env_def)

section \<open>Properties of the cache contract\<close>

text \<open>
  C16. One \<^verbatim>\<open>CACHE_CLASS\<close> for a table entry, run on a consistent cache,
  implements the abstract \<open>ensure\<close>: if it returns, the registry it leaves is
  the old one with the entry bound to its class name when it was unbound, and
  unchanged otherwise; and it orphans no global reference and leaves no local
  one behind: the globals no entry holds and the live locals are those before
  the call.
\<close>

theorem CACHE_CLASS_refines_ensure:
  assumes tab: "(var, name) \<in> set CLASS_TABLE" and inv: "cache_inv s"
    and run: "CACHE_CLASS var name s = Inr s'"
  shows "cache_abs s' = ensure var name (cache_abs s) \<and> orphans s' = orphans s \<and>
    locals_of (jenv s') = locals_of (jenv s)"
proof -
  from inv have wf: "env_wf (jenv s)" by (rule cache_inv_wf)
  have inv': "cache_inv s'" by (rule cache_inv_CACHE_CLASS [OF tab inv run])
  from tab have nm: "name = class_name var" by (rule in_CLASS_TABLE)
  have reg: "cache_abs s' = ensure var name (cache_abs s)"
    using run wf
  proof (cases rule: CACHE_CLASS_Inr_cases)
    case 1
    with inv show ?thesis by (auto simp: ensure_def cache_abs_inv)
  next
    case 2
    with inv inv' nm show ?thesis by (simp add: fun_eq_iff ensure_def cache_abs_inv)
  qed
  moreover have "orphans s' = orphans s \<and> locals_of (jenv s') = locals_of (jenv s)"
    using CACHE_CLASS_ref_sets [OF wf run] by (auto simp: orphans_def)
  ultimately show ?thesis by blast
qed

theorem CACHE_CLASS_refines_ensure_witness:
  "\<exists>s'. CACHE_CLASS JSQLDATE_TYPE ''java/sql/Date'' boot_state = Inr s' \<and>
     cache_abs s' = ensure JSQLDATE_TYPE ''java/sql/Date'' (cache_abs boot_state) \<and>
     orphans s' = orphans boot_state \<and> locals_of (jenv s') = locals_of (jenv boot_state)"
proof -
  have tab: "(JSQLDATE_TYPE, ''java/sql/Date'') \<in> set CLASS_TABLE" by (simp add: CLASS_TABLE_def)
  obtain s' where run: "CACHE_CLASS JSQLDATE_TYPE ''java/sql/Date'' boot_state = Inr s'"
    using CACHE_CLASS_total [OF tab boot_inv boot_pending] boot_loadable tab
    by (force simp: list_all_iff)
  from run CACHE_CLASS_refines_ensure [OF tab boot_inv run] show ?thesis by blast
qed

text \<open>
  C17. Any sequence of \<^verbatim>\<open>Jcp_CacheClasses\<close> and \<^verbatim>\<open>Jcp_UnRefCacheClasses\<close>
  calls, started from a consistent and tidy cache with nothing pending and every
  class loadable, runs to completion without a fault and implements the abstract
  registry: the classes the cache resolves afterwards are those of the same
  sequence of \<open>ensure_all\<close> and \<open>release_all\<close> on the abstract registry.
\<close>

theorem lifecycle_refines:
  assumes "lifecycle_ok s"
  shows "\<exists>s'. run_ops ops s = Inr s' \<and> cache_abs s' = abs_run ops (cache_abs s)"
  using run_ops_sim [OF assms] by blast

theorem lifecycle_refines_witness:
  "\<exists>s'. run_ops [CacheClasses, UnRefCacheClasses, CacheClasses] boot_state = Inr s' \<and>
     cache_abs s' = abs_run [CacheClasses, UnRefCacheClasses, CacheClasses] (cache_abs boot_state)"
  by (rule lifecycle_refines [OF boot_lifecycle_ok])

text \<open>
  C18. Across any such sequence (start, stop and restart of the bridge) no JNI
  reference leaks: afterwards the live global references are exactly those the
  cache's globals hold, no local reference is left, and the cache is consistent.
\<close>

theorem lifecycle_no_leak:
  assumes "lifecycle_ok s" and "run_ops ops s = Inr s'"
  shows "globals_of (jenv s') = ran (classes s') \<and> locals_of (jenv s') = {} \<and> cache_inv s'"
proof -
  from run_ops_sim [OF assms(1), of ops] assms(2) have "lifecycle_ok s'" by auto
  then show ?thesis by (simp add: lifecycle_ok_def tidy_def)
qed

theorem lifecycle_no_leak_witness:
  "\<exists>s'. run_ops [CacheClasses, UnRefCacheClasses, CacheClasses] boot_state = Inr s' \<and>
     globals_of (jenv s') = ran (classes s') \<and> locals_of (jenv s') = {} \<and> cache_inv s'"
proof -
  obtain s' where run: "run_ops [CacheClasses, UnRefCacheClasses, CacheClasses] boot_state = Inr s'"
    using run_ops_sim [OF boot_lifecycle_ok] by blast
  from run lifecycle_no_leak [OF boot_lifecycle_ok run] show ?thesis by blast
qed

end
