(* ===== verification/Bounds.thy ===== *)
theory Bounds
  imports Prelude
begin

text \<open>
  The bounds of Java's integer types in \<^verbatim>\<open>include/pyutils.h\<close>
  (\<^verbatim>\<open>JBYTE_MIN\<close> \<dots> \<^verbatim>\<open>JCHAR_MAX\<close>) are C preprocessor constants, so their
  meaning is that of the C constant expression they expand to. This theory
  gives the expressions as terms of a small language of integer constant
  expressions and evaluates them with ISO C's rules on an LP64 target: an
  unsuffixed decimal literal takes the first of \<^verbatim>\<open>int\<close>, \<^verbatim>\<open>long\<close> in which its
  value fits and has no type otherwise, the operands of a binary operator are
  converted to the larger type, and a result outside its type's range is
  signed overflow, which is undefined (\<open>None\<close>). The bounds are used
  only by conversion routines whose bodies are not in this tree, so no
  property of the development rests on them; they are kept so that the
  header's constants have a meaning in the model.
\<close>

datatype ctype = CInt | CLong

datatype cexpr =
    Lit int                \<comment> \<open>an unsuffixed non-negative integer literal\<close>
  | Neg cexpr              \<comment> \<open>unary minus\<close>
  | Mul cexpr cexpr
  | Sub cexpr cexpr

fun ctype_bits :: "ctype \<Rightarrow> nat" where
  "ctype_bits CInt = 32"
| "ctype_bits CLong = 64"

definition fits :: "ctype \<Rightarrow> int \<Rightarrow> bool" where
  "fits t v \<longleftrightarrow> - (2 ^ (ctype_bits t - 1)) \<le> v \<and> v < 2 ^ (ctype_bits t - 1)"

definition lit_type :: "int \<Rightarrow> ctype option" where
  "lit_type v = (if fits CInt v then Some CInt else if fits CLong v then Some CLong else None)"

fun common_type :: "ctype \<Rightarrow> ctype \<Rightarrow> ctype" where
  "common_type CInt CInt = CInt"
| "common_type _ _ = CLong"

definition arith :: "ctype \<Rightarrow> int \<Rightarrow> (ctype \<times> int) option" where
  "arith t v = (if fits t v then Some (t, v) else None)"

fun c_eval :: "cexpr \<Rightarrow> (ctype \<times> int) option" where
  "c_eval (Lit v) = map_option (\<lambda>t. (t, v)) (lit_type v)"
| "c_eval (Neg e) = Option.bind (c_eval e) (\<lambda>(t, v). arith t (- v))"
| "c_eval (Mul a b) = Option.bind (c_eval a) (\<lambda>(ta, va). Option.bind (c_eval b) (\<lambda>(tb, vb).
     arith (common_type ta tb) (va * vb)))"
| "c_eval (Sub a b) = Option.bind (c_eval a) (\<lambda>(ta, va). Option.bind (c_eval b) (\<lambda>(tb, vb).
     arith (common_type ta tb) (va - vb)))"

section \<open>The constants of pyutils.h\<close>

definition JBYTE_MIN :: cexpr where "JBYTE_MIN = Neg (Lit 128)"
definition JBYTE_MAX :: cexpr where "JBYTE_MAX = Lit 127"
definition JSHORT_MIN :: cexpr where "JSHORT_MIN = Neg (Lit 32768)"
definition JSHORT_MAX :: cexpr where "JSHORT_MAX = Lit 32767"
definition JINT_MAX :: cexpr where "JINT_MAX = Lit 2147483647"
definition JINT_MIN :: cexpr where "JINT_MIN = Sub (Mul (Neg (Lit 1)) JINT_MAX) (Lit 1)"
definition JLONG_MAX :: cexpr where "JLONG_MAX = Lit 9223372036854775807"
definition JLONG_MIN :: cexpr where "JLONG_MIN = Sub (Mul (Neg (Lit 1)) JLONG_MAX) (Lit 1)"
definition JCHAR_MAX :: cexpr where "JCHAR_MAX = Lit 65535"

lemmas bound_defs = JBYTE_MIN_def JBYTE_MAX_def JSHORT_MIN_def JSHORT_MAX_def JINT_MAX_def
  JINT_MIN_def JLONG_MAX_def JLONG_MIN_def JCHAR_MAX_def

lemmas c_eval_simps = bound_defs fits_def lit_type_def arith_def

end
