(* ===== verification/Numpy.thy ===== *)
theory Numpy
  imports Jni
begin

text \<open>
  The bulk conversion of a Java primitive array into a numpy array,
  \<^verbatim>\<open>Jcp_NUMPY_ARRAY_CONVERT(NPY_TYPE, Region_copyFunc)\<close> of
  \<^verbatim>\<open>include/pyutils.h\<close>, and its six instances
  \<^verbatim>\<open>JcpPyNumpyArray_From{Boolean,Short,Int,Long,Float,Double}Array\<close>.
  The state is that of the three runtimes the macro touches, restricted to the
  element type \<open>'e\<close> of the instance: the Java arrays of that type and the JNI
  pending exception, the CPython heap (numpy arrays with their data buffer,
  the reference count of \<^verbatim>\<open>None\<close>, the error indicator, whether numpy's C API
  has been imported), and the C heap of \<^verbatim>\<open>malloc\<close>. A buffer cell not yet
  written is \<open>None\<close>. Reading or writing through \<^verbatim>\<open>NULL\<close>, or past the end of
  a buffer, is a fault.
\<close>

datatype npy_type = NPY_BOOL | NPY_SHORT | NPY_INT | NPY_LONG | NPY_FLOAT | NPY_DOUBLE

text \<open>A numpy array: its dtype, its shape and its data buffer.\<close>

datatype 'e ndarray = NdArray npy_type "int list" "'e option list"

text \<open>A \<^verbatim>\<open>PyObject*\<close> that is not \<^verbatim>\<open>NULL\<close>: \<^verbatim>\<open>Py_None\<close> or an object of the heap.\<close>

datatype pyref = PyNoneRef | PyAddr nat

datatype np_fault =
    NullDeref string
  | BufferOverflow string
  | JniPending string
  | JniInvalidArray jref

record 'e np_state =
  jarrays :: "jref \<rightharpoonup> 'e list"
  jpending :: "string option"
  numpy_imported :: bool
  numpy_importable :: bool
  py_heap :: "nat \<rightharpoonup> 'e ndarray"
  py_next :: nat
  none_refcnt :: nat
  py_err :: "string option"
  py_mem_ok :: "nat \<Rightarrow> bool"
  c_mem :: "nat \<rightharpoonup> int"
  c_next :: nat
  malloc_ok :: bool

section \<open>The primitives the macro calls\<close>

text \<open>
  \<^verbatim>\<open>init_numpy()\<close> (of \<^verbatim>\<open>pyutils.c\<close>): imports numpy's C API on first use;
  false, with \<^verbatim>\<open>ImportError\<close> set, when numpy is not installed.
\<close>

definition init_numpy :: "'e np_state \<Rightarrow> bool \<times> 'e np_state" where
  "init_numpy s =
     (if numpy_imported s then (True, s)
      else if numpy_importable s then (True, s\<lparr>numpy_imported := True\<rparr>)
      else (False, s\<lparr>py_err := Some ''ImportError''\<rparr>))"

definition GetArrayLength :: "'e np_state \<Rightarrow> jref \<Rightarrow> np_fault + nat" where
  "GetArrayLength s arr =
     (if jpending s \<noteq> None then Inl (JniPending ''GetArrayLength'')
      else case jarrays s arr of None \<Rightarrow> Inl (JniInvalidArray arr) | Some xs \<Rightarrow> Inr (length xs))"

definition malloc :: "'e np_state \<Rightarrow> nat option \<times> 'e np_state" where
  "malloc s =
     (if malloc_ok s then (Some (c_next s), s\<lparr>c_mem := (c_mem s)(c_next s \<mapsto> 0), c_next := Suc (c_next s)\<rparr>)
      else (None, s))"

definition free :: "'e np_state \<Rightarrow> nat \<Rightarrow> 'e np_state" where
  "free s p = s\<lparr>c_mem := (c_mem s)(p := None)\<rparr>"

text \<open>\<^verbatim>\<open>PyArray_SimpleNew(1, dims, t)\<close>: a fresh, uninitialised one-dimensional array.\<close>

definition PyArray_SimpleNew :: "'e np_state \<Rightarrow> nat \<Rightarrow> npy_type \<Rightarrow> np_fault + (pyref option \<times> 'e np_state)" where
  "PyArray_SimpleNew s dims t =
     (case c_mem s dims of
        None \<Rightarrow> Inl (NullDeref ''PyArray_SimpleNew'')
      | Some n \<Rightarrow>
          (if py_mem_ok s (nat n)
           then Inr (Some (PyAddr (py_next s)),
                     s\<lparr>py_heap := (py_heap s)(py_next s \<mapsto> NdArray t [n] (replicate (nat n) None)),
                       py_next := Suc (py_next s)\<rparr>)
           else Inr (None, s\<lparr>py_err := Some ''MemoryError''\<rparr>)))"

text \<open>
  \<^verbatim>\<open>Get<Type>ArrayRegion(env, arr, start, len, buf)\<close>: copy \<open>len\<close> elements
  from index \<open>start\<close> into the first \<open>len\<close> cells of \<open>buf\<close>; an index range
  outside the array throws \<^verbatim>\<open>ArrayIndexOutOfBoundsException\<close> and copies nothing.
\<close>

definition region_write :: "'e list \<Rightarrow> nat \<Rightarrow> nat \<Rightarrow> 'e option list \<Rightarrow> 'e option list" where
  "region_write xs start len buf = map Some (take len (drop start xs)) @ drop len buf"

definition GetArrayRegion ::
  "'e np_state \<Rightarrow> jref \<Rightarrow> nat \<Rightarrow> nat \<Rightarrow> 'e option list \<Rightarrow> np_fault + ('e option list \<times> 'e np_state)" where
  "GetArrayRegion s arr start len buf =
     (if jpending s \<noteq> None then Inl (JniPending ''GetArrayRegion'')
      else case jarrays s arr of
        None \<Rightarrow> Inl (JniInvalidArray arr)
      | Some xs \<Rightarrow>
          (if length xs < start + len
           then Inr (buf, s\<lparr>jpending := Some ''java/lang/ArrayIndexOutOfBoundsException''\<rparr>)
           else if length buf < len then Inl (BufferOverflow ''GetArrayRegion'')
           else Inr (region_write xs start len buf, s)))"

text \<open>
  \<^verbatim>\<open>Region_copyFunc(env, value, 0, length, PyArray_DATA(result))\<close>: the data
  pointer of \<^verbatim>\<open>NULL\<close> is a fault; otherwise the region is copied into the
  array's buffer.
\<close>

definition copy_into_array ::
  "'e np_state \<Rightarrow> jref \<Rightarrow> nat \<Rightarrow> pyref option \<Rightarrow> np_fault + 'e np_state" where
  "copy_into_array s arr len result =
     (case result of
        Some (PyAddr a) \<Rightarrow>
          (case py_heap s a of
             Some (NdArray t dims buf) \<Rightarrow>
               sbind (GetArrayRegion s arr 0 len buf) (\<lambda>(buf', s').
                 Inr (s'\<lparr>py_heap := (py_heap s')(a \<mapsto> NdArray t dims buf')\<rparr>))
           | None \<Rightarrow> Inl (NullDeref ''PyArray_DATA''))
      | _ \<Rightarrow> Inl (NullDeref ''PyArray_DATA''))"

section \<open>The macro\<close>

definition Jcp_NUMPY_ARRAY_CONVERT ::
  "npy_type \<Rightarrow> 'e np_state \<Rightarrow> jref option \<Rightarrow> np_fault + (pyref option \<times> 'e np_state)" where
  "Jcp_NUMPY_ARRAY_CONVERT t s value =
     (case value of
        None \<Rightarrow> Inr (Some PyNoneRef, s\<lparr>none_refcnt := Suc (none_refcnt s)\<rparr>)
      | Some arr \<Rightarrow>
          (let (ok, s1) = init_numpy s in
           if \<not> ok then Inr (None, s1)
           else sbind (GetArrayLength s1 arr) (\<lambda>length.
             let (dims, s2) = malloc s1 in
             case dims of
               None \<Rightarrow> Inl (NullDeref ''dims[0]'')
             | Some d \<Rightarrow>
                 let s3 = s2\<lparr>c_mem := (c_mem s2)(d \<mapsto> int length)\<rparr> in
                 sbind (PyArray_SimpleNew s3 d t) (\<lambda>(result, s4).
                 sbind (copy_into_array s4 arr length result) (\<lambda>s5.
                 Inr (result, free s5 d))))))"

text \<open>
  The six instances, one per element type. Only their prototypes are in
  \<^verbatim>\<open>include/pyutils.h\<close>; their bodies (in \<^verbatim>\<open>pyutils.c\<close>, not in this
  tree) are taken to be one use of the macro each, with the dtype named after
  the Java element type. The dtype is not checked against the element width:
  no property below depends on which dtype an instance passes.
\<close>

definition JcpPyNumpyArray_FromJBooleanArray ::
  "jboolean np_state \<Rightarrow> jref option \<Rightarrow> np_fault + (pyref option \<times> jboolean np_state)" where
  "JcpPyNumpyArray_FromJBooleanArray = Jcp_NUMPY_ARRAY_CONVERT NPY_BOOL"

definition JcpPyNumpyArray_FromJShortArray ::
  "jshort np_state \<Rightarrow> jref option \<Rightarrow> np_fault + (pyref option \<times> jshort np_state)" where
  "JcpPyNumpyArray_FromJShortArray = Jcp_NUMPY_ARRAY_CONVERT NPY_SHORT"

definition JcpPyNumpyArray_FromJIntArray ::
  "jint np_state \<Rightarrow> jref option \<Rightarrow> np_fault + (pyref option \<times> jint np_state)" where
  "JcpPyNumpyArray_FromJIntArray = Jcp_NUMPY_ARRAY_CONVERT NPY_INT"

definition JcpPyNumpyArray_FromJLongArray ::
  "jlong np_state \<Rightarrow> jref option \<Rightarrow> np_fault + (pyref option \<times> jlong np_state)" where
  "JcpPyNumpyArray_FromJLongArray = Jcp_NUMPY_ARRAY_CONVERT NPY_LONG"

definition JcpPyNumpyArray_FromJFloatArray ::
  "jfloat np_state \<Rightarrow> jref option \<Rightarrow> np_fault + (pyref option \<times> jfloat np_state)" where
  "JcpPyNumpyArray_FromJFloatArray = Jcp_NUMPY_ARRAY_CONVERT NPY_FLOAT"

definition JcpPyNumpyArray_FromJDoubleArray ::
  "jdouble np_state \<Rightarrow> jref option \<Rightarrow> np_fault + (pyref option \<times> jdouble np_state)" where
  "JcpPyNumpyArray_FromJDoubleArray = Jcp_NUMPY_ARRAY_CONVERT NPY_DOUBLE"


text \<open>
  Well-formedness of the heaps: nothing is allocated at or above the
  allocation counters of the C heap and of the CPython heap.
\<close>

definition np_wf :: "'e np_state \<Rightarrow> bool" where
  "np_wf s \<longleftrightarrow> (\<forall>p. c_next s \<le> p \<longrightarrow> c_mem s p = None) \<and> (\<forall>a. py_next s \<le> a \<longrightarrow> py_heap s a = None)"

text \<open>A sample state: one \<^verbatim>\<open>int[]\<close> \<^verbatim>\<open>{1, 2, 3}\<close> at reference 7, numpy installed.\<close>

definition sample_np :: "jint np_state" where
  "sample_np = \<lparr>jarrays = [7 \<mapsto> [1, 2, 3]], jpending = None, numpy_imported = False,
     numpy_importable = True, py_heap = Map.empty, py_next = 0, none_refcnt = 1, py_err = None,
     py_mem_ok = (\<lambda>_. True), c_mem = Map.empty, c_next = 0, malloc_ok = True\<rparr>"

section \<open>The conversion on its success path\<close>

lemmas np_step_defs = Jcp_NUMPY_ARRAY_CONVERT_def init_numpy_def GetArrayLength_def malloc_def free_def
  PyArray_SimpleNew_def copy_into_array_def GetArrayRegion_def

lemma np_wf_fresh: "np_wf s \<Longrightarrow> c_mem s (c_next s) = None \<and> py_heap s (py_next s) = None"
  by (simp add: np_wf_def)

lemma Jcp_NUMPY_ARRAY_CONVERT_ok:
  assumes "jpending s = None" and "jarrays s arr = Some xs"
    and "numpy_imported s \<or> numpy_importable s" and "malloc_ok s"
    and "py_mem_ok s (length xs)" and "np_wf s"
  shows "Jcp_NUMPY_ARRAY_CONVERT t s (Some arr) =
    Inr (Some (PyAddr (py_next s)),
         s\<lparr>numpy_imported := True,
           py_heap := (py_heap s)(py_next s \<mapsto> NdArray t [int (length xs)] (map Some xs)),
           py_next := Suc (py_next s), c_next := Suc (c_next s)\<rparr>)"
proof -
  have "(c_mem s)(c_next s \<mapsto> int (length xs), c_next s := None) = c_mem s"
    using np_wf_fresh [OF assms(6)] by (auto simp: fun_eq_iff)
  with assms show ?thesis
    by (auto simp: np_step_defs region_write_def)
qed

section \<open>Properties of the numpy conversion\<close>

text \<open>
  C7. Converting a \<^verbatim>\<open>NULL\<close> Java array returns \<^verbatim>\<open>None\<close> (with its new
  reference counted), never \<^verbatim>\<open>NULL\<close>, a fault or an empty array, and touches
  nothing else: numpy is not even imported.
\<close>

theorem Jcp_NUMPY_ARRAY_CONVERT_null:
  "Jcp_NUMPY_ARRAY_CONVERT t s None = Inr (Some PyNoneRef, s\<lparr>none_refcnt := Suc (none_refcnt s)\<rparr>)"
  by (simp add: Jcp_NUMPY_ARRAY_CONVERT_def)

text \<open>
  C8. Without numpy the conversion fails cleanly: it returns \<^verbatim>\<open>NULL\<close> with
  \<^verbatim>\<open>ImportError\<close> set for the caller to raise, before any allocation.
\<close>

theorem Jcp_NUMPY_ARRAY_CONVERT_no_numpy:
  assumes "\<not> numpy_imported s" and "\<not> numpy_importable s"
  shows "Jcp_NUMPY_ARRAY_CONVERT t s (Some arr) = Inr (None, s\<lparr>py_err := Some ''ImportError''\<rparr>)"
  using assms by (simp add: Jcp_NUMPY_ARRAY_CONVERT_def init_numpy_def)

theorem Jcp_NUMPY_ARRAY_CONVERT_no_numpy_witness:
  "\<not> numpy_imported (sample_np\<lparr>numpy_importable := False\<rparr>) \<and>
   \<not> numpy_importable (sample_np\<lparr>numpy_importable := False\<rparr>) \<and>
   Jcp_NUMPY_ARRAY_CONVERT NPY_INT (sample_np\<lparr>numpy_importable := False\<rparr>) (Some 7) =
     Inr (None, sample_np\<lparr>numpy_importable := False, py_err := Some ''ImportError''\<rparr>)"
  using Jcp_NUMPY_ARRAY_CONVERT_no_numpy [of "sample_np\<lparr>numpy_importable := False\<rparr>" NPY_INT 7]
  by (simp add: sample_np_def)

text \<open>
  C9. With numpy available and memory to spare, converting a live Java array
  \<open>xs\<close> returns a fresh one-dimensional numpy array of the requested dtype and
  length \<open>length xs\<close> whose every cell holds the Java element at the same index;
  the \<^verbatim>\<open>dims\<close> buffer is freed (the C heap is as before) and the Java side is
  unchanged.
\<close>

theorem Jcp_NUMPY_ARRAY_CONVERT_copies:
  assumes "jpending s = None" and "jarrays s arr = Some xs"
    and "numpy_imported s \<or> numpy_importable s" and "malloc_ok s"
    and "py_mem_ok s (length xs)" and "np_wf s"
  shows "Jcp_NUMPY_ARRAY_CONVERT t s (Some arr) =
    Inr (Some (PyAddr (py_next s)),
         s\<lparr>numpy_imported := True,
           py_heap := (py_heap s)(py_next s \<mapsto> NdArray t [int (length xs)] (map Some xs)),
           py_next := Suc (py_next s), c_next := Suc (c_next s)\<rparr>)"
  using assms by (rule Jcp_NUMPY_ARRAY_CONVERT_ok)

theorem Jcp_NUMPY_ARRAY_CONVERT_copies_witness:
  "jpending sample_np = None \<and> jarrays sample_np 7 = Some [1, 2, 3] \<and>
   (numpy_imported sample_np \<or> numpy_importable sample_np) \<and> malloc_ok sample_np \<and>
   py_mem_ok sample_np 3 \<and> np_wf sample_np \<and>
   Jcp_NUMPY_ARRAY_CONVERT NPY_INT sample_np (Some 7) =
    Inr (Some (PyAddr 0), sample_np\<lparr>numpy_imported := True,
           py_heap := [0 \<mapsto> NdArray NPY_INT [3] [Some 1, Some 2, Some 3]],
           py_next := 1, c_next := 1\<rparr>)"
proof -
  have h: "jpending sample_np = None" "jarrays sample_np 7 = Some [1, 2, 3]"
    "numpy_imported sample_np \<or> numpy_importable sample_np" "malloc_ok sample_np"
    "py_mem_ok sample_np (length [1, 2, (3::jint)])" "np_wf sample_np"
    by (simp_all add: sample_np_def np_wf_def)
  from Jcp_NUMPY_ARRAY_CONVERT_copies [OF h, of NPY_INT] h show ?thesis
    by (simp add: sample_np_def)
qed

text \<open>
  C10. The macro does not check \<^verbatim>\<open>PyArray_SimpleNew\<close>'s result: when the
  array cannot be allocated (\<^verbatim>\<open>MemoryError\<close>), it passes
  \<^verbatim>\<open>PyArray_DATA(NULL)\<close> to the region copy, a \<^verbatim>\<open>NULL\<close> dereference,
  instead of returning \<^verbatim>\<open>NULL\<close> with the error set.
\<close>

theorem Jcp_NUMPY_ARRAY_CONVERT_alloc_failure:
  assumes "jpending s = None" and "jarrays s arr = Some xs"
    and "numpy_imported s \<or> numpy_importable s" and "malloc_ok s"
    and "\<not> py_mem_ok s (length xs)"
  shows "Jcp_NUMPY_ARRAY_CONVERT t s (Some arr) = Inl (NullDeref ''PyArray_DATA'')"
  using assms by (auto simp: np_step_defs)

theorem Jcp_NUMPY_ARRAY_CONVERT_alloc_failure_witness:
  "jpending (sample_np\<lparr>py_mem_ok := (\<lambda>n. n < 3)\<rparr>) = None \<and>
   jarrays (sample_np\<lparr>py_mem_ok := (\<lambda>n. n < 3)\<rparr>) 7 = Some [1, 2, 3] \<and>
   (numpy_imported (sample_np\<lparr>py_mem_ok := (\<lambda>n. n < 3)\<rparr>) \<or>
    numpy_importable (sample_np\<lparr>py_mem_ok := (\<lambda>n. n < 3)\<rparr>)) \<and>
   malloc_ok (sample_np\<lparr>py_mem_ok := (\<lambda>n. n < 3)\<rparr>) \<and>
   \<not> py_mem_ok (sample_np\<lparr>py_mem_ok := (\<lambda>n. n < 3)\<rparr>) (length [1, 2, (3::jint)]) \<and>
   Jcp_NUMPY_ARRAY_CONVERT NPY_INT (sample_np\<lparr>py_mem_ok := (\<lambda>n. n < 3)\<rparr>) (Some 7) =
     Inl (NullDeref ''PyArray_DATA'')"
proof -
  let ?s = "sample_np\<lparr>py_mem_ok := (\<lambda>n. n < 3)\<rparr>"
  have h: "jpending ?s = None" "jarrays ?s 7 = Some [1, 2, 3]"
    "numpy_imported ?s \<or> numpy_importable ?s" "malloc_ok ?s"
    "\<not> py_mem_ok ?s (length [1, 2, (3::jint)])"
    by (simp_all add: sample_np_def)
  from Jcp_NUMPY_ARRAY_CONVERT_alloc_failure [OF h, of NPY_INT] h show ?thesis by simp
qed

text \<open>
  C11. The macro does not check \<^verbatim>\<open>malloc\<close>'s result either: when it returns
  \<^verbatim>\<open>NULL\<close>, \<^verbatim>\<open>dims[0] = length\<close> writes through \<^verbatim>\<open>NULL\<close>.
\<close>

theorem Jcp_NUMPY_ARRAY_CONVERT_malloc_failure:
  assumes "jpending s = None" and "jarrays s arr = Some xs"
    and "numpy_imported s \<or> numpy_importable s" and "\<not> malloc_ok s"
  shows "Jcp_NUMPY_ARRAY_CONVERT t s (Some arr) = Inl (NullDeref ''dims[0]'')"
  using assms by (auto simp: np_step_defs)

theorem Jcp_NUMPY_ARRAY_CONVERT_malloc_failure_witness:
  "jpending (sample_np\<lparr>malloc_ok := False\<rparr>) = None \<and>
   jarrays (sample_np\<lparr>malloc_ok := False\<rparr>) 7 = Some [1, 2, 3] \<and>
   (numpy_imported (sample_np\<lparr>malloc_ok := False\<rparr>) \<or> numpy_importable (sample_np\<lparr>malloc_ok := False\<rparr>)) \<and>
   \<not> malloc_ok (sample_np\<lparr>malloc_ok := False\<rparr>) \<and>
   Jcp_NUMPY_ARRAY_CONVERT NPY_INT (sample_np\<lparr>malloc_ok := False\<rparr>) (Some 7) = Inl (NullDeref ''dims[0]'')"
proof -
  let ?s = "sample_np\<lparr>malloc_ok := False\<rparr>"
  have h: "jpending ?s = None" "jarrays ?s 7 = Some [1, 2, 3]"
    "numpy_imported ?s \<or> numpy_importable ?s" "\<not> malloc_ok ?s"
    by (simp_all add: sample_np_def)
  from Jcp_NUMPY_ARRAY_CONVERT_malloc_failure [OF h, of NPY_INT] h show ?thesis by simp
qed

end
