(* ===== verification/Member.thy ===== *)
theory Member
  imports Jni
begin

text \<open>
  \<^verbatim>\<open>java_class/Member.c\<close>: \<^verbatim>\<open>JavaMember_getName(env, this)\<close> calls
  \<^verbatim>\<open>java.lang.reflect.Member.getName()\<close> on \<open>this\<close>. The method ID is resolved
  on the first call with \<^verbatim>\<open>GetMethodID\<close> on the class global
  \<^verbatim>\<open>JMEMBER_TYPE\<close> and kept in the file's static \<^verbatim>\<open>getName\<close> (initially
  \<open>0\<close>, here \<open>None\<close>) for every later call. Neither the resolution nor the
  call is checked.
\<close>

text \<open>
  The state the routine reads and writes: the JNI environment, the static
  method ID and the class global \<^verbatim>\<open>JMEMBER_TYPE\<close> (declared with the other
  \<^verbatim>\<open>java_class\<close> globals, outside this tree).
\<close>

record member_state =
  menv :: jni_env
  getName :: "jmethodID option"
  JMEMBER_TYPE :: jobject

definition JavaMember_getName ::
  "member_state \<Rightarrow> jobject \<Rightarrow> jni_fault + (jobject \<times> member_state)" where
  "JavaMember_getName s this =
     sbind (if getName s = None
            then sbind (GetMethodID (menv s) (JMEMBER_TYPE s) ''getName'' ''()Ljava/lang/String;'')
                   (\<lambda>(mid, e). Inr (s\<lparr>menv := e, getName := mid\<rparr>))
            else Inr s)
       (\<lambda>s1. sbind (CallObjectMethod (menv s1) this (getName s1))
               (\<lambda>(r, e). Inr (r, s1\<lparr>menv := e\<rparr>)))"

text \<open>
  A JVM in which the class \<^verbatim>\<open>java/lang/reflect/Member\<close> is loaded at global
  reference 0 and declares \<^verbatim>\<open>getName\<close> exactly when \<open>decl\<close> holds, with one
  \<^verbatim>\<open>Method\<close> object named \<^verbatim>\<open>run\<close> at local reference 1.
\<close>

definition sample_member :: "bool \<Rightarrow> member_state" where
  "sample_member decl =
     \<lparr>menv = \<lparr>refs = [0 \<mapsto> (GlobalRef, ClassObj ''java/lang/reflect/Member''),
                      1 \<mapsto> (LocalRef, MemberObj ''Demo'' ''run'')],
              next_ref = 2, pending = None, loadable = (\<lambda>_. True),
              declares = (\<lambda>c m sig. decl \<and> c = ''java/lang/reflect/Member'' \<and> m = ''getName'')\<rparr>,
      getName = None, JMEMBER_TYPE = Some 0\<rparr>"

section \<open>Branches of the routine\<close>

lemma JavaMember_getName_cached:
  assumes "getName s = Some mid"
  shows "JavaMember_getName s this =
     sbind (CallObjectMethod (menv s) this (Some mid)) (\<lambda>(r, e). Inr (r, s\<lparr>menv := e\<rparr>))"
  using assms by (simp add: JavaMember_getName_def)

lemma CallObjectMethod_getName:
  assumes "pending e = None" and "refs e o' = Some (k, MemberObj c n)"
  shows "CallObjectMethod e (Some o') (Some (MethodID cn ''getName'' ''()Ljava/lang/String;'')) =
    Inr (Some (next_ref e), e\<lparr>refs := (refs e)(next_ref e \<mapsto> (LocalRef, StringObj n)),
                              next_ref := Suc (next_ref e)\<rparr>)"
  using assms by (simp add: CallObjectMethod_def new_ref_def)

lemma GetMethodID_declared:
  assumes "pending e = None" and "refs e r = Some (k, ClassObj cn)" and "declares e cn m sig"
  shows "GetMethodID e (Some r) m sig = Inr (Some (MethodID cn m sig), e)"
  using assms by (simp add: GetMethodID_def)

lemma GetMethodID_undeclared:
  assumes "pending e = None" and "refs e r = Some (k, ClassObj cn)" and "\<not> declares e cn m sig"
  shows "GetMethodID e (Some r) m sig = Inr (None, e\<lparr>pending := Some ''java/lang/NoSuchMethodError''\<rparr>)"
  using assms by (simp add: GetMethodID_def)

section \<open>Properties of JavaMember_getName\<close>

text \<open>
  C12. On a \<^verbatim>\<open>Member\<close> object, with nothing pending and \<^verbatim>\<open>JMEMBER_TYPE\<close>
  the loaded class that declares \<^verbatim>\<open>getName()\<close>, the routine returns a new
  local reference to a string holding the member's name, and afterwards the
  static holds that method's ID, whether or not it held it before.
\<close>

theorem JavaMember_getName_returns_name:
  assumes np: "pending (menv s) = None" and cls: "JMEMBER_TYPE s = Some r"
    and cr: "refs (menv s) r = Some (k, ClassObj cn)"
    and dc: "declares (menv s) cn ''getName'' ''()Ljava/lang/String;''"
    and obj: "refs (menv s) o' = Some (k', MemberObj c n)"
    and st: "getName s = None \<or> getName s = Some (MethodID cn ''getName'' ''()Ljava/lang/String;'')"
  shows "JavaMember_getName s (Some o') =
    Inr (Some (next_ref (menv s)),
         s\<lparr>menv := (menv s)\<lparr>refs := (refs (menv s))(next_ref (menv s) \<mapsto> (LocalRef, StringObj n)),
                             next_ref := Suc (next_ref (menv s))\<rparr>,
           getName := Some (MethodID cn ''getName'' ''()Ljava/lang/String;'')\<rparr>)"
  using st
proof
  assume "getName s = None"
  with np cls cr dc obj show ?thesis
    by (simp add: JavaMember_getName_def GetMethodID_declared CallObjectMethod_getName)
next
  assume g: "getName s = Some (MethodID cn ''getName'' ''()Ljava/lang/String;'')"
  with np obj show ?thesis
    by (simp add: JavaMember_getName_cached CallObjectMethod_getName)
qed

theorem JavaMember_getName_returns_name_witness:
  "pending (menv (sample_member True)) = None \<and> JMEMBER_TYPE (sample_member True) = Some 0 \<and>
   refs (menv (sample_member True)) 0 = Some (GlobalRef, ClassObj ''java/lang/reflect/Member'') \<and>
   declares (menv (sample_member True)) ''java/lang/reflect/Member'' ''getName'' ''()Ljava/lang/String;'' \<and>
   refs (menv (sample_member True)) 1 = Some (LocalRef, MemberObj ''Demo'' ''run'') \<and>
   getName (sample_member True) = None \<and>
   JavaMember_getName (sample_member True) (Some 1) =
     Inr (Some 2, (sample_member True)\<lparr>
       menv := (menv (sample_member True))\<lparr>refs := (refs (menv (sample_member True)))(2 \<mapsto> (LocalRef, StringObj ''run'')),
                                          next_ref := 3\<rparr>,
       getName := Some (MethodID ''java/lang/reflect/Member'' ''getName'' ''()Ljava/lang/String;'')\<rparr>)"
proof -
  have h: "pending (menv (sample_member True)) = None" "JMEMBER_TYPE (sample_member True) = Some 0"
    "refs (menv (sample_member True)) 0 = Some (GlobalRef, ClassObj ''java/lang/reflect/Member'')"
    "declares (menv (sample_member True)) ''java/lang/reflect/Member'' ''getName'' ''()Ljava/lang/String;''"
    "refs (menv (sample_member True)) 1 = Some (LocalRef, MemberObj ''Demo'' ''run'')"
    "getName (sample_member True) = None \<or>
     getName (sample_member True) = Some (MethodID ''java/lang/reflect/Member'' ''getName'' ''()Ljava/lang/String;'')"
    by (simp_all add: sample_member_def)
  from JavaMember_getName_returns_name [OF h] h show ?thesis
    by (simp add: sample_member_def numeral_2_eq_2 numeral_3_eq_3)
qed

text \<open>
  C13. The method ID is resolved at most once: a call that returns leaves the
  static set and \<^verbatim>\<open>JMEMBER_TYPE\<close> untouched, and a call made with the static
  already set keeps it and is exactly the \<^verbatim>\<open>CallObjectMethod\<close> on the cached
  ID: no \<^verbatim>\<open>GetMethodID\<close>, so it does not read \<^verbatim>\<open>JMEMBER_TYPE\<close> at all.
\<close>

theorem JavaMember_getName_resolves_once:
  assumes "JavaMember_getName s this = Inr (res, s')"
  shows "getName s' \<noteq> None \<and> JMEMBER_TYPE s' = JMEMBER_TYPE s \<and>
    (getName s \<noteq> None \<longrightarrow>
       getName s' = getName s \<and> CallObjectMethod (menv s) this (getName s) = Inr (res, menv s'))"
  using assms
  by (cases "getName s")
     (auto simp: JavaMember_getName_def GetMethodID_def CallObjectMethod_def sbind_eq_Inr
           split: option.splits prod.splits jobj.splits jmethodID.splits if_splits)

theorem JavaMember_getName_resolves_once_witness:
  "\<exists>res s'. JavaMember_getName (sample_member True) (Some 1) = Inr (res, s') \<and>
     getName s' \<noteq> None \<and> JMEMBER_TYPE s' = JMEMBER_TYPE (sample_member True)"
proof -
  obtain res s' where run: "JavaMember_getName (sample_member True) (Some 1) = Inr (res, s')"
    by (simp add: sample_member_def JavaMember_getName_def GetMethodID_def CallObjectMethod_def new_ref_def)
  from run JavaMember_getName_resolves_once [OF run] show ?thesis by blast
qed

text \<open>
  C14. \<^verbatim>\<open>GetMethodID\<close>'s result is not checked: when \<^verbatim>\<open>JMEMBER_TYPE\<close>
  does not declare \<^verbatim>\<open>getName()\<close>, the static stays \<open>0\<close> and
  \<^verbatim>\<open>CallObjectMethod\<close> is called with a \<^verbatim>\<open>NULL\<close> method ID while
  \<^verbatim>\<open>NoSuchMethodError\<close> is pending, a call the JNI specification forbids.
\<close>

theorem JavaMember_getName_unresolved:
  assumes "pending (menv s) = None" and "JMEMBER_TYPE s = Some r"
    and "refs (menv s) r = Some (k, ClassObj cn)"
    and "\<not> declares (menv s) cn ''getName'' ''()Ljava/lang/String;''"
    and "getName s = None"
  shows "JavaMember_getName s this = Inl (PendingException ''CallObjectMethod'')"
  using assms
  by (simp add: JavaMember_getName_def GetMethodID_undeclared CallObjectMethod_def)

theorem JavaMember_getName_unresolved_witness:
  "pending (menv (sample_member False)) = None \<and> JMEMBER_TYPE (sample_member False) = Some 0 \<and>
   refs (menv (sample_member False)) 0 = Some (GlobalRef, ClassObj ''java/lang/reflect/Member'') \<and>
   \<not> declares (menv (sample_member False)) ''java/lang/reflect/Member'' ''getName'' ''()Ljava/lang/String;'' \<and>
   getName (sample_member False) = None \<and>
   JavaMember_getName (sample_member False) (Some 1) = Inl (PendingException ''CallObjectMethod'')"
proof -
  have h: "pending (menv (sample_member False)) = None" "JMEMBER_TYPE (sample_member False) = Some 0"
    "refs (menv (sample_member False)) 0 = Some (GlobalRef, ClassObj ''java/lang/reflect/Member'')"
    "\<not> declares (menv (sample_member False)) ''java/lang/reflect/Member'' ''getName'' ''()Ljava/lang/String;''"
    "getName (sample_member False) = None"
    by (simp_all add: sample_member_def)
  from JavaMember_getName_unresolved [OF h] h show ?thesis by simp
qed

end
