(* ===== verification/Race.thy ===== *)
theory Race
  imports ClassCache
begin

text \<open>
  Concurrent first use of the class cache. \<^verbatim>\<open>CACHE_CLASS\<close> is a bare
  check-then-populate sequence of JNI calls on a shared global; two threads
  entering \<^verbatim>\<open>Jcp_CacheClasses\<close> at once interleave those calls. Each thread
  runs the macro for the same entry as a program of five atomic steps (the
  \<^verbatim>\<open>NULL\<close> test, \<^verbatim>\<open>FindClass\<close>, \<^verbatim>\<open>NewGlobalRef\<close>, the store into the
  global, \<^verbatim>\<open>DeleteLocalRef\<close>) with its own locals \<^verbatim>\<open>clazz\<close> and the
  global reference it obtained; a step relation lets either thread move.
  Both threads share one JNI reference table, and \<^verbatim>\<open>clazz\<close> is a local of
  the thread that runs the macro.
\<close>

datatype tpc = TCheck | TFind | TNewGlobal | TStore | TDelLocal | TDone

record thread =
  tpc :: tpc
  tclazz :: jobject
  tgref :: jobject

record race_state =
  shared :: pemja_state
  thr :: "bool \<Rightarrow> thread"

definition thread_upd :: "race_state \<Rightarrow> bool \<Rightarrow> thread \<Rightarrow> race_state" where
  "thread_upd st i t = st\<lparr>thr := (thr st)(i := t)\<rparr>"

text \<open>One atomic step of thread \<open>i\<close> running \<^verbatim>\<open>CACHE_CLASS(var, name)\<close>; \<open>None\<close>: no step.\<close>

fun unguarded_step :: "class_id \<Rightarrow> string \<Rightarrow> bool \<Rightarrow> race_state \<Rightarrow> race_state option" where
  "unguarded_step var name i st =
     (let t = thr st i; s = shared st in
      case tpc t of
        TCheck \<Rightarrow> Some (thread_upd st i (t\<lparr>tpc := (if classes s var = None then TFind else TDone)\<rparr>))
      | TFind \<Rightarrow> (case FindClass (jenv s) name of
          Inr (c, e) \<Rightarrow> Some (thread_upd (st\<lparr>shared := s\<lparr>jenv := e\<rparr>\<rparr>) i (t\<lparr>tpc := TNewGlobal, tclazz := c\<rparr>))
        | Inl _ \<Rightarrow> None)
      | TNewGlobal \<Rightarrow> (case NewGlobalRef (jenv s) (tclazz t) of
          Inr (g, e) \<Rightarrow> Some (thread_upd (st\<lparr>shared := s\<lparr>jenv := e\<rparr>\<rparr>) i (t\<lparr>tpc := TStore, tgref := g\<rparr>))
        | Inl _ \<Rightarrow> None)
      | TStore \<Rightarrow> Some (thread_upd (st\<lparr>shared := s\<lparr>classes := (classes s)(var := tgref t)\<rparr>\<rparr>) i
                          (t\<lparr>tpc := TDelLocal\<rparr>))
      | TDelLocal \<Rightarrow> (case DeleteLocalRef (jenv s) (tclazz t) of
          Inr e \<Rightarrow> Some (thread_upd (st\<lparr>shared := s\<lparr>jenv := e\<rparr>\<rparr>) i (t\<lparr>tpc := TDone\<rparr>))
        | Inl _ \<Rightarrow> None)
      | TDone \<Rightarrow> None)"

definition race_init :: "pemja_state \<Rightarrow> race_state" where
  "race_init s = \<lparr>shared = s, thr = (\<lambda>_. \<lparr>tpc = TCheck, tclazz = None, tgref = None\<rparr>)\<rparr>"

inductive unguarded_reach :: "class_id \<Rightarrow> string \<Rightarrow> pemja_state \<Rightarrow> race_state \<Rightarrow> bool"
  for var name s where
  start: "unguarded_reach var name s (race_init s)"
| step: "unguarded_reach var name s st \<Longrightarrow> unguarded_step var name i st = Some st' \<Longrightarrow>
         unguarded_reach var name s st'"

text \<open>A schedule: the list of threads that move, in order; a thread that cannot move is skipped.\<close>

fun run_schedule :: "(bool \<Rightarrow> race_state \<Rightarrow> race_state option) \<Rightarrow> bool list \<Rightarrow> race_state \<Rightarrow> race_state" where
  "run_schedule f [] st = st"
| "run_schedule f (i # rest) st = run_schedule f rest (case f i st of Some st' \<Rightarrow> st' | None \<Rightarrow> st)"

text \<open>
  A global reference is leaked when it refers to the entry's class and the
  entry does not hold it: nothing will ever delete it.
\<close>

definition leaked :: "class_id \<Rightarrow> race_state \<Rightarrow> jref \<Rightarrow> bool" where
  "leaked var st r \<longleftrightarrow>
     refs (jenv (shared st)) r = Some (GlobalRef, ClassObj (class_name var)) \<and>
     classes (shared st) var \<noteq> Some r"

text \<open>
  A thread between \<^verbatim>\<open>FindClass\<close> and \<^verbatim>\<open>DeleteLocalRef\<close> holds a live local
  reference to the class in \<open>tclazz\<close>; the two threads' are distinct.
\<close>

fun in_flight :: "tpc \<Rightarrow> bool" where
  "in_flight TNewGlobal = True"
| "in_flight TStore = True"
| "in_flight TDelLocal = True"
| "in_flight _ = False"

definition holds_local :: "string \<Rightarrow> race_state \<Rightarrow> bool \<Rightarrow> bool" where
  "holds_local name st i \<longleftrightarrow>
     (in_flight (tpc (thr st i)) \<longrightarrow>
        (\<exists>r. tclazz (thr st i) = Some r \<and> refs (jenv (shared st)) r = Some (LocalRef, ClassObj name)))"

definition race_inv :: "string \<Rightarrow> race_state \<Rightarrow> bool" where
  "race_inv name st \<longleftrightarrow>
     env_wf (jenv (shared st)) \<and> pending (jenv (shared st)) = None \<and> loadable (jenv (shared st)) name \<and>
     holds_local name st True \<and> holds_local name st False \<and>
     (in_flight (tpc (thr st True)) \<and> in_flight (tpc (thr st False)) \<longrightarrow>
        tclazz (thr st True) \<noteq> tclazz (thr st False))"

section \<open>Runs\<close>

lemma run_schedule_reach:
  "unguarded_reach var name s st \<Longrightarrow>
   unguarded_reach var name s (run_schedule (\<lambda>i. unguarded_step var name i) sched st)"
proof (induction sched arbitrary: st)
  case Nil
  then show ?case by simp
next
  case (Cons i rest)
  show ?case
  proof (cases "unguarded_step var name i st")
    case None
    with Cons show ?thesis by simp
  next
    case (Some st')
    with Cons show ?thesis by (simp add: unguarded_reach.step)
  qed
qed

lemmas race_steps = race_init_def thread_upd_def FindClass_def NewGlobalRef_def
  DeleteLocalRef_def new_ref_def

lemma race_inv_step:
  assumes inv: "race_inv name st" and st: "unguarded_step var name i st = Some st'"
  shows "race_inv name st'"
proof -
  from inv have wf: "env_wf (jenv (shared st))" by (simp add: race_inv_def)
  have lt: "r < next_ref (jenv (shared st))" if "refs (jenv (shared st)) r = Some x" for r x
    using env_wf_live [OF wf that] .
  show ?thesis
    using inv st lt
    by (cases i; cases "tpc (thr st i)")
       (auto simp: race_inv_def holds_local_def thread_upd_def Let_def FindClass_def NewGlobalRef_def
          DeleteLocalRef_def new_ref_def env_wf_def split: sum.splits prod.splits if_splits option.splits
          ref_kind.splits)
qed


lemma unguarded_progress:
  assumes inv: "race_inv name st" and nd: "tpc (thr st i) \<noteq> TDone"
  shows "\<exists>st'. unguarded_step var name i st = Some st'"
proof -
  from inv have h: "holds_local name st i" by (cases i) (simp_all add: race_inv_def)
  from inv have np: "pending (jenv (shared st)) = None" and ld: "loadable (jenv (shared st)) name"
    by (simp_all add: race_inv_def)
  show ?thesis
    using h np ld nd
    by (cases "tpc (thr st i)")
       (auto simp: holds_local_def Let_def FindClass_def NewGlobalRef_def DeleteLocalRef_def new_ref_def)
qed

lemma unguarded_reach_inv:
  assumes "env_wf (jenv s)" and "pending (jenv s) = None" and "loadable (jenv s) name"
    and "unguarded_reach var name s st"
  shows "race_inv name st"
  using assms(4)
proof (induction rule: unguarded_reach.induct)
  case start
  with assms(1-3) show ?case by (simp add: race_inv_def holds_local_def race_init_def)
next
  case (step st i st')
  then show ?case by (blast intro: race_inv_step)
qed

section \<open>Properties of concurrent first use\<close>

text \<open>
  C15. Without a guard, two threads running \<^verbatim>\<open>CACHE_CLASS\<close> for a table
  entry that is still \<^verbatim>\<open>NULL\<close>, from any state with nothing pending and the
  class loadable, can both pass the \<^verbatim>\<open>NULL\<close> test; both then create a
  global reference and the second store overwrites the first, which stays live
  with nothing left to delete it. Both calls complete normally, so the leak is
  not a faulted run: a leaked global reference, and two live handles for one
  class where the spec allows one.
\<close>

theorem unguarded_first_use_leaks:
  assumes tab: "(var, name) \<in> set CLASS_TABLE" and unset: "classes s var = None"
    and np: "pending (jenv s) = None" and ld: "loadable (jenv s) name"
  shows "\<exists>st r. unguarded_reach var name s st \<and>
     tpc (thr st True) = TDone \<and> tpc (thr st False) = TDone \<and> leaked var st r"
proof -
  let ?st = "run_schedule (\<lambda>i. unguarded_step var name i)
    [True, False, True, True, True, True, False, False, False, False] (race_init s)"
  let ?r = "Suc (next_ref (jenv s))"
  have "unguarded_reach var name s ?st"
    by (rule run_schedule_reach [OF unguarded_reach.start])
  moreover have "tpc (thr ?st True) = TDone \<and> tpc (thr ?st False) = TDone \<and>
      leaked var ?st ?r"
    using unset np ld in_CLASS_TABLE [OF tab] by (simp add: race_steps leaked_def)
  ultimately show ?thesis by blast
qed

theorem unguarded_first_use_leaks_witness:
  "\<exists>st r. unguarded_reach JSQLDATE_TYPE ''java/sql/Date'' boot_state st \<and>
     tpc (thr st True) = TDone \<and> tpc (thr st False) = TDone \<and> leaked JSQLDATE_TYPE st r"
proof -
  have h: "(JSQLDATE_TYPE, ''java/sql/Date'') \<in> set CLASS_TABLE"
    "classes boot_state JSQLDATE_TYPE = None" "pending (jenv boot_state) = None"
    "loadable (jenv boot_state) ''java/sql/Date''"
    by (simp_all add: boot_state_def boot_env_def CLASS_TABLE_def)
  show ?thesis by (rule unguarded_first_use_leaks [OF h])
qed

text \<open>
  C19. The unguarded system cannot get stuck: from a state with nothing pending
  and the class loadable, every reachable state in which neither thread can
  move has both threads finished, so every interleaving completes both calls
  (and C15's leak is reached by a complete run, not a faulted one).
\<close>

theorem unguarded_first_use_live:
  assumes "env_wf (jenv s)" and "pending (jenv s) = None" and "loadable (jenv s) name"
    and "unguarded_reach var name s st" and stuck: "\<forall>i. unguarded_step var name i st = None"
  shows "tpc (thr st True) = TDone \<and> tpc (thr st False) = TDone"
proof -
  have inv: "race_inv name st" by (rule unguarded_reach_inv [OF assms(1-4)])
  have "tpc (thr st i) = TDone" for i
    using unguarded_progress [OF inv, of i var] stuck by auto
  then show ?thesis by blast
qed

theorem unguarded_first_use_live_witness:
  "\<exists>st. unguarded_reach JSQLDATE_TYPE ''java/sql/Date'' boot_state st \<and>
     (\<forall>i. unguarded_step JSQLDATE_TYPE ''java/sql/Date'' i st = None) \<and>
     tpc (thr st True) = TDone \<and> tpc (thr st False) = TDone"
proof -
  let ?st = "run_schedule (\<lambda>i. unguarded_step JSQLDATE_TYPE ''java/sql/Date'' i)
    [True, False, True, True, True, True, False, False, False, False] (race_init boot_state)"
  have reach: "unguarded_reach JSQLDATE_TYPE ''java/sql/Date'' boot_state ?st"
    by (rule run_schedule_reach [OF unguarded_reach.start])
  have stuck: "\<forall>i. unguarded_step JSQLDATE_TYPE ''java/sql/Date'' i ?st = None"
    by (simp add: race_steps boot_state_def boot_env_def class_name_def CLASS_TABLE_def all_bool_eq)
  have h: "env_wf (jenv boot_state)" "pending (jenv boot_state) = None"
    "loadable (jenv boot_state) ''java/sql/Date''"
    by (simp_all add: boot_state_def boot_env_def env_wf_def CLASS_TABLE_def)
  from reach stuck unguarded_first_use_live [OF h reach stuck] show ?thesis by blast
qed

end
