(* ===== verification/Spec2Isabelle.thy ===== *)
theory Spec2Isabelle
  imports ClassCache CacheSpec Bounds Numpy Member Race
begin

text \<open>
  \<^bold>\<open>A verification development of pemja's native marshalling layer.\<close>

  pemja embeds CPython in a JVM process and converts values between the two
  runtimes. The native layer under \<^verbatim>\<open>src/main/c/pemja/core\<close> that this
  repository ships consists of three files:
  \<^item> \<^verbatim>\<open>include/pyutils.h\<close>: the class table \<^verbatim>\<open>CLASS_TABLE\<close> of the 39 Java
    classes the bridge dispatches on, the macros \<^verbatim>\<open>CACHE_CLASS\<close> and
    \<^verbatim>\<open>UNREF_CACHE_CLASS\<close> that populate and release the corresponding
    \<^verbatim>\<open>jclass\<close> globals, the declarations of \<^verbatim>\<open>Jcp_CacheClasses\<close> and
    \<^verbatim>\<open>Jcp_UnRefCacheClasses\<close> that apply them to the table, the bounds
    \<^verbatim>\<open>JBYTE_MIN\<close> \<dots> \<^verbatim>\<open>JCHAR_MAX\<close> of Java's integer types, the macro
    \<^verbatim>\<open>Jcp_NUMPY_ARRAY_CONVERT\<close> that copies a Java primitive array into a
    new numpy array, and the prototypes of every conversion routine (whose
    bodies live in \<^verbatim>\<open>pyutils.c\<close>, not in this tree);
  \<^item> \<^verbatim>\<open>java_class/Member.c\<close>: \<^verbatim>\<open>JavaMember_getName\<close>, which resolves the
    method ID of \<^verbatim>\<open>Member.getName()\<close> once, caches it in a static, and calls it;
  \<^item> \<^verbatim>\<open>include/java_class/LocalDateTime.h\<close>: three prototypes only.
  Every routine talks to the JVM through JNI; the JNI runtime is the external
  collaborator and is modelled from the JNI specification.

  \<^bold>\<open>Theories.\<close>
  \<^item> \<open>Prelude\<close>: the Java primitive types as words, the error-and-state
    composition \<open>sbind\<close> in which every native routine is written (a fault is
    \<open>Inl\<close>), \<open>seq_each\<close> (the expansion of an X-macro table into one statement
    per entry, stopping at the first fault) with its invariant, establishment,
    totality and fault lemmas.
  \<^item> \<open>Jni\<close>: the JNI environment (a table of live local and global references,
    the pending-exception slot, the class loader, the declared methods) and the
    functions the source calls: \<^verbatim>\<open>FindClass\<close>, \<^verbatim>\<open>NewGlobalRef\<close>,
    \<^verbatim>\<open>DeleteLocalRef\<close>, \<^verbatim>\<open>DeleteGlobalRef\<close>, \<^verbatim>\<open>GetMethodID\<close>,
    \<^verbatim>\<open>CallObjectMethod\<close>. A call the JNI specification leaves undefined (a dead
    reference, a \<^verbatim>\<open>NULL\<close> object, a non-exception-safe call with an exception
    pending) is a fault.
  \<^item> \<open>ClassCache\<close>: the table as the datatype \<open>class_id\<close> of the C globals and
    the list \<open>CLASS_TABLE\<close>; the globals as the field \<open>classes\<close> of
    \<open>pemja_state\<close>; \<open>CACHE_CLASS\<close>, \<open>UNREF_CACHE_CLASS\<close> as the macros.
    \<open>Jcp_CacheClasses\<close> and \<open>Jcp_UnRefCacheClasses\<close> are declared in
    \<^verbatim>\<open>pyutils.h\<close> as caching and unreffing the classes of \<^verbatim>\<open>CLASS_TABLE\<close>;
    their bodies are in \<^verbatim>\<open>pyutils.c\<close>, and they are modelled as the X-macro
    expansions \<^verbatim>\<open>CLASS_TABLE(CACHE_CLASS)\<close> and
    \<^verbatim>\<open>CLASS_TABLE(UNREF_CACHE_CLASS)\<close> in the table's order. The invariant
    \<open>cache_inv\<close>: every non-\<^verbatim>\<open>NULL\<close> entry is a live global reference to its
    own class. Proved: the invariant is kept by every macro and routine;
    population resolves every class (C1), is idempotent (C2) and leaks no
    reference (C5); teardown never faults (C3) and releases exactly the cached
    references (C4); a class missing from the class path makes population call
    \<^verbatim>\<open>NewGlobalRef\<close> with an exception pending (C6, a defect of the macro,
    which checks no result). The routine-level proofs here and in
    \<open>CacheSpec\<close> share two lemmas, \<open>Jcp_CacheClasses_invariant\<close> and
    \<open>Jcp_UnRefCacheClasses_invariant\<close>: a property kept by each macro on a
    consistent cache is kept by the routine.
  \<^item> \<open>CacheSpec\<close>: the cache's contract from the spec, a registry of resolved
    classes with an idempotent \<open>ensure\<close>, \<open>ensure_all\<close> and \<open>release_all\<close>,
    the abstraction function \<open>cache_abs\<close> from the globals and the JNI table,
    the set \<open>orphans\<close> of global references no entry holds, and a lifecycle as
    a list of \<^verbatim>\<open>Jcp_CacheClasses\<close> / \<^verbatim>\<open>Jcp_UnRefCacheClasses\<close> calls
    (\<open>run_ops\<close>). Proved: one macro refines \<open>ensure\<close>, orphans no global
    and leaves the locals as they were (C16); every lifecycle from a
    consistent, tidy state runs without a fault and refines the abstract run
    (C17), and leaves exactly the cached globals live and no local (C18).
  \<^item> \<open>Numpy\<close>: \<^verbatim>\<open>Jcp_NUMPY_ARRAY_CONVERT\<close> over a state holding the JVM's
    primitive arrays, the CPython heap with \<^verbatim>\<open>Py_None\<close>'s reference count
    and error indicator, and the C heap (\<open>np_state\<close>), with
    \<^verbatim>\<open>GetArrayRegion\<close> as a bulk copy. The six instances
    \<^verbatim>\<open>JcpPyNumpyArray_From*Array\<close> are one use of the macro each; their
    bodies are not in this tree and no property depends on the dtype they pass.
    Proved: a \<^verbatim>\<open>NULL\<close> array gives a new reference to \<^verbatim>\<open>None\<close> (C7); a
    missing numpy gives \<^verbatim>\<open>NULL\<close> with the error set and nothing allocated
    (C8); otherwise a fresh array of the right type and length holding the Java
    elements, with the \<^verbatim>\<open>dims\<close> buffer freed (C9); an allocation failure of
    \<^verbatim>\<open>PyArray_SimpleNew\<close> or of \<^verbatim>\<open>malloc\<close> leads to a \<^verbatim>\<open>NULL\<close>
    dereference (C10, C11), results the macro does not check.
  \<^item> \<open>Member\<close>: \<^verbatim>\<open>JavaMember_getName\<close> over the JNI environment, the static
    method ID and \<^verbatim>\<open>JMEMBER_TYPE\<close> (\<open>member_state\<close>). Proved: it returns a new
    string holding the member's name (C12), resolves the method ID at most once
    (C13), and, the result of \<^verbatim>\<open>GetMethodID\<close> being unchecked, calls
    \<^verbatim>\<open>CallObjectMethod\<close> with a \<^verbatim>\<open>NULL\<close> ID and an exception pending when
    the method is not declared (C14).
  \<^item> \<open>Race\<close>: two threads running \<^verbatim>\<open>CACHE_CLASS\<close> for one entry, each as five
    atomic steps (\<open>unguarded_step\<close>) with its own locals over one shared JNI
    environment, interleaved by the reachability relation \<open>unguarded_reach\<close>;
    the code has no lock, so no other variant is modelled. Proved: from every
    state in which the entry is \<^verbatim>\<open>NULL\<close>, nothing is pending and the class is
    loadable, an interleaving in which both threads pass the \<^verbatim>\<open>NULL\<close> test
    completes both calls and leaves a live global reference the entry does not
    hold (C15, by symbolic execution of the ten steps); no interleaving gets
    stuck: a reachable state where neither thread can move has both finished
    (C19), from the invariant \<open>race_inv\<close>, kept by every step, that each
    thread in flight holds its own live local reference.
  \<^item> \<open>Bounds\<close>: the bounds \<^verbatim>\<open>JBYTE_MIN\<close> \<dots> \<^verbatim>\<open>JCHAR_MAX\<close> as terms of a
    small language of C integer constant expressions (\<open>cexpr\<close>) evaluated by
    \<open>c_eval\<close> with ISO C's typing of unsuffixed literals and the usual
    arithmetic conversions on an LP64 target, signed overflow being \<open>None\<close>.
    The routines that use the bounds are not in this tree, so no property
    rests on them.

  \<^bold>\<open>Modelling choices.\<close> Java's primitive types are words of their width.
  Nothing in the modelled code loops without a bound: the X-macro expansions
  are folds over the 39-entry table and the array copy is one bulk call, so no
  fuel is needed and every routine is total. The JNI runtime, CPython and
  numpy are modelled from their specifications, only as far as the calls the
  source makes; \<^verbatim>\<open>init_numpy\<close> (outside this tree) is modelled by its effect.

  \<^bold>\<open>Not modelled.\<close> The code of the three source files that has a body is
  mapped; the rest is licence text, includes and the prototypes of routines
  whose bodies (\<^verbatim>\<open>pyutils.c\<close>, \<^verbatim>\<open>LocalDateTime.c\<close>) are not in this tree.
  Those routines (the scalar, string, temporal, decimal and container
  conversions, the object dispatch \<^verbatim>\<open>JcpPyObject_FromJObject\<close> /
  \<^verbatim>\<open>JcpPyObject_AsJObject\<close> and the \<^verbatim>\<open>LocalDateTime\<close> helpers) are not
  modelled: the spec names them but fixes neither their range checks, their
  precedence of type tests nor their buffer and error protocol, so a model
  would put behaviour into them that the code may not have. Logging, the build
  and packaging are outside the program's behaviour.
\<close>

end
